theory Spec2Isabelle
  imports Complex_Main
begin

section \<open>Python values\<close>

text \<open>
  The resume pipeline is written in Python.  Its floats are modelled as reals, so the
  scoring curves are read as exact arithmetic; its unbounded ints as \<open>int\<close>; its
  strings as \<open>string\<close>s of ASCII characters; its dicts as association lists in
  insertion order, the keys being distinct.  A dict with a fixed layout is a record,
  and a key that may be missing from it is an \<open>option\<close> field.  A function that
  can raise returns a sum, the error on the left.
\<close>

type_synonym ('k, 'v) dict = "('k \<times> 'v) list"

datatype py_error = KeyError string | IndexError

definition dict_in :: "'k \<Rightarrow> ('k, 'v) dict \<Rightarrow> bool" where
  "dict_in k d = (map_of d k \<noteq> None)"

definition dict_get :: "('k, 'v) dict \<Rightarrow> 'k \<Rightarrow> 'v \<Rightarrow> 'v" where
  "dict_get d k dflt = (case map_of d k of None \<Rightarrow> dflt | Some v \<Rightarrow> v)"

text \<open>Subscription \<open>d[k]\<close> raises \<open>KeyError\<close> on a missing key.\<close>

definition dict_item :: "(string, 'v) dict \<Rightarrow> string \<Rightarrow> py_error + 'v" where
  "dict_item d k = (case map_of d k of None \<Rightarrow> Inl (KeyError k) | Some v \<Rightarrow> Inr v)"

text \<open>\<open>xs[i:j]\<close> for non-negative \<open>i\<close> and \<open>j\<close>.\<close>

definition slice :: "nat \<Rightarrow> nat \<Rightarrow> 'a list \<Rightarrow> 'a list" where
  "slice i j xs = take (j - i) (drop i xs)"

subsection \<open>Strings\<close>

definition whitespace :: string where
  "whitespace = [CHR 0x09, CHR 0x0A, CHR 0x0B, CHR 0x0C, CHR 0x0D,
                 CHR 0x1C, CHR 0x1D, CHR 0x1E, CHR 0x1F, CHR 0x20]"

definition is_space :: "char \<Rightarrow> bool" where
  "is_space c = (c \<in> set whitespace)"

definition ascii_lowercase :: string where
  "ascii_lowercase = ''abcdefghijklmnopqrstuvwxyz''"

definition ascii_uppercase :: string where
  "ascii_uppercase = ''ABCDEFGHIJKLMNOPQRSTUVWXYZ''"

definition digits :: string where
  "digits = ''0123456789''"

definition is_upper :: "char \<Rightarrow> bool" where
  "is_upper c = (c \<in> set ascii_uppercase)"

definition is_lower :: "char \<Rightarrow> bool" where
  "is_lower c = (c \<in> set ascii_lowercase)"

definition to_lower :: "char \<Rightarrow> char" where
  "to_lower c = dict_get (zip ascii_uppercase ascii_lowercase) c c"

definition to_upper :: "char \<Rightarrow> char" where
  "to_upper c = dict_get (zip ascii_lowercase ascii_uppercase) c c"

text \<open>\<open>s.lower()\<close>, on ASCII.\<close>

definition lower :: "string \<Rightarrow> string" where
  "lower s = map to_lower s"

text \<open>\<open>s.replace(a, b)\<close> for single characters \<open>a\<close> and \<open>b\<close>.\<close>

definition replace_char :: "char \<Rightarrow> char \<Rightarrow> string \<Rightarrow> string" where
  "replace_char a b s = map (\<lambda>c. if c = a then b else c) s"

text \<open>
  \<open>s.title()\<close>, on ASCII: a letter that follows a letter is lowered, any other
  letter is raised, everything else is kept.
\<close>

fun title_from :: "bool \<Rightarrow> string \<Rightarrow> string" where
  "title_from prev [] = []"
| "title_from prev (c # cs) =
     (if is_upper c \<or> is_lower c
      then (if prev then to_lower c else to_upper c) # title_from True cs
      else c # title_from False cs)"

definition title :: "string \<Rightarrow> string" where
  "title s = title_from False s"

text \<open>\<open>s.split()\<close>: the maximal runs of characters that are not whitespace.\<close>

fun split_from :: "string \<Rightarrow> string \<Rightarrow> string list" where
  "split_from w [] = (if w = [] then [] else [w])"
| "split_from w (c # cs) =
     (if is_space c then (if w = [] then split_from [] cs else w # split_from [] cs)
      else split_from (w @ [c]) cs)"

definition split :: "string \<Rightarrow> string list" where
  "split s = split_from [] s"

text \<open>\<open>sep.join(xs)\<close>.\<close>

fun join :: "string \<Rightarrow> string list \<Rightarrow> string" where
  "join sep [] = []"
| "join sep [x] = x"
| "join sep (x # y # ys) = x @ sep @ join sep (y # ys)"

subsection \<open>Rounding\<close>

text \<open>
  \<open>round(x, nd)\<close> rounds to \<open>nd\<close> decimals, a tie going to the even digit.
  Python rounds the binary float, which can lie just off the real value: where the
  real value is a tie, or next to one, Python may give the other neighbour (the real
  \<open>9 * 0.15\<close> is the tie 1.35 and rounds to 1.4, the float is just below it and
  rounds to 1.3).  Away from ties both agree.  So the properties below state bounds,
  which hold for either neighbour, and values only where the float and the real agree.
\<close>

definition py_round :: "real \<Rightarrow> nat \<Rightarrow> real" where
  "py_round x nd =
     (let y = x * 10 ^ nd;
          f = \<lfloor>y\<rfloor>;
          d = y - of_int f;
          n = (if d < 1 / 2 then f else if 1 / 2 < d then f + 1
               else if even f then f else f + 1)
      in of_int n / 10 ^ nd)"

section \<open>The rating system (\<open>rating_system.py\<close>)\<close>

text \<open>The weights and thresholds that the constructor sets.\<close>

definition weights :: "(string, real) dict" where
  "weights =
     [(''skills_diversity'', 0.20),
      (''skills_quantity'', 0.15),
      (''contact_completeness'', 0.10),
      (''sections_completeness'', 0.15),
      (''readability'', 0.15),
      (''project_quality'', 0.15),
      (''content_length'', 0.10)]"

definition min_skills :: int where "min_skills = 5"
definition ideal_skills :: int where "ideal_skills = 15"
definition min_word_count :: int where "min_word_count = 150"
definition ideal_word_count :: int where "ideal_word_count = 400"
definition max_word_count :: int where "max_word_count = 800"
definition min_projects :: int where "min_projects = 1"
definition ideal_projects :: int where "ideal_projects = 3"
definition ideal_sentence_length :: real where "ideal_sentence_length = 15"
definition max_sentence_length :: real where "max_sentence_length = 25"

definition score_skills_diversity :: "(string, string list) dict \<Rightarrow> real" where
  "score_skills_diversity skills =
     (if skills = [] then 0
      else let categories = int (length skills)
           in if categories \<ge> 5 then 10
              else if categories \<ge> 3 then 7 + of_int (categories - 3) * 1.5
              else if categories \<ge> 1 then 4 + of_int (categories - 1) * 1.5
              else 0)"

text \<open>The total of \<open>score_skills_quantity\<close>: the lengths of all skill lists, summed.\<close>

definition total_skills :: "(string, string list) dict \<Rightarrow> int" where
  "total_skills skills = sum_list (map (\<lambda>(category, skill_list). int (length skill_list)) skills)"

definition score_skills_quantity :: "(string, string list) dict \<Rightarrow> real" where
  "score_skills_quantity skills =
     (if skills = [] then 0
      else let n = total_skills skills
           in if n \<ge> ideal_skills then 10
              else if n \<ge> min_skills then
                (let progress = of_int (n - min_skills) / of_int (ideal_skills - min_skills)
                 in 5 + progress * 5)
              else (of_int n / of_int min_skills) * 5)"

definition score_contact_completeness :: "(string, string) dict \<Rightarrow> real" where
  "score_contact_completeness contact_info =
     (if contact_info = [] then 0
      else let essential_fields = [''email'', ''phone''];
               bonus_fields = [''linkedin'', ''github''];
               score = 0;
               score = foldl (\<lambda>score field.
                         if dict_in field contact_info then score + 3.5 else score)
                       score essential_fields;
               score = foldl (\<lambda>score field.
                         if dict_in field contact_info then score + 1.5 else score)
                       score bonus_fields
           in min score 10)"

definition score_sections_completeness :: "(string, bool) dict \<Rightarrow> real" where
  "score_sections_completeness sections =
     (if sections = [] then 0
      else let essential = [''experience'', ''education'', ''skills''];
               important = [''summary'', ''projects''];
               bonus = [''certifications'', ''achievements''];
               score = 0;
               score = foldl (\<lambda>score section.
                         if dict_get sections section False then score + 2 else score)
                       score essential;
               score = foldl (\<lambda>score section.
                         if dict_get sections section False then score + 1.5 else score)
                       score important;
               score = foldl (\<lambda>score section.
                         if dict_get sections section False then score + 0.5 else score)
                       score bonus
           in min score 10)"

text \<open>
  The readability metrics are the dict that \<open>calculate_readability\<close> builds; each of
  its keys may be missing, and the dict is empty when all are.
\<close>

record readability_metrics =
  readability_score :: "real option"
  avg_sentence_length :: "real option"
  word_count :: "int option"
  sentence_count :: "int option"
  complexity_ratio :: "real option"

definition no_metrics :: readability_metrics where
  "no_metrics =
     \<lparr>readability_score = None, avg_sentence_length = None, word_count = None,
      sentence_count = None, complexity_ratio = None\<rparr>"

text \<open>\<open>d.get(k, dflt)\<close> for a key that is a field of a record.\<close>

definition get_or :: "'a option \<Rightarrow> 'a \<Rightarrow> 'a" where
  "get_or v dflt = (case v of None \<Rightarrow> dflt | Some x \<Rightarrow> x)"

text \<open>
  The two parts of \<open>score_readability\<close>: the points for the sentence length and
  the points for the complexity ratio.
\<close>

definition length_score :: "real \<Rightarrow> real" where
  "length_score sentence_length =
     (if sentence_length \<le> ideal_sentence_length then 5
      else if sentence_length \<le> max_sentence_length then
        (let excess = sentence_length - ideal_sentence_length;
             max_excess = max_sentence_length - ideal_sentence_length
         in 5 - (excess / max_excess) * 2)
      else 3)"

definition complexity_score :: "real \<Rightarrow> real" where
  "complexity_score ratio =
     (if 0.2 \<le> ratio \<and> ratio \<le> 0.4 then 5
      else if ratio < 0.2 then 3 + (ratio / 0.2) * 2
      else 5 - ((ratio - 0.4) / 0.3) * 2)"

definition score_readability :: "readability_metrics \<Rightarrow> real" where
  "score_readability metrics =
     (if metrics = no_metrics then 5
      else let sentence_length = get_or (avg_sentence_length metrics) 20;
               ratio = get_or (complexity_ratio metrics) 0.3
           in max 0 (min (length_score sentence_length + complexity_score ratio) 10))"

text \<open>
  The two parts of \<open>score_project_quality\<close>: the points for the number of
  projects, and the step of the loop that adds the points of one project description.
\<close>

definition quantity_score :: "int \<Rightarrow> real" where
  "quantity_score num_projects =
     (if num_projects \<ge> ideal_projects then 5
      else if num_projects \<ge> min_projects then 3 + (of_int (num_projects - 1) / 2) * 2
      else 0)"

definition quality_step :: "real \<Rightarrow> string \<Rightarrow> real" where
  "quality_step quality_score project =
     (let words = length (split project)
      in if words \<ge> 15 then quality_score + 1.67
         else if words \<ge> 8 then quality_score + 1
         else quality_score + 0.5)"

definition score_project_quality :: "string list \<Rightarrow> real" where
  "score_project_quality projects =
     (if projects = [] then 0
      else let num_projects = int (length projects);
               quality_score = foldl quality_step 0 (take 3 projects)
           in min (quantity_score num_projects + quality_score) 10)"

definition score_content_length :: "int \<Rightarrow> real" where
  "score_content_length wc =
     (if wc < min_word_count then (of_int wc / of_int min_word_count) * 4
      else if wc \<le> ideal_word_count then
        7 + (of_int (wc - min_word_count) / of_int (ideal_word_count - min_word_count)) * 3
      else if wc \<le> max_word_count then
        (let excess = wc - ideal_word_count;
             max_excess = max_word_count - ideal_word_count
         in 10 - (of_int excess / of_int max_excess) * 3)
      else 5)"

subsection \<open>The overall score\<close>

text \<open>
  The analysis result is the dict that \<open>analyze_resume\<close> builds; the rating system
  reads its keys with \<open>get\<close> and a default, so each key may be missing.
\<close>

record analysis_result =
  ar_error :: "string option"
  ar_skills :: "(string, string list) dict option"
  ar_keywords :: "string list option"
  ar_projects :: "string list option"
  ar_contact_info :: "(string, string) dict option"
  ar_sections :: "(string, bool) dict option"
  ar_readability :: "readability_metrics option"

text \<open>An entry of the score breakdown.\<close>

record breakdown_entry =
  be_criterion :: string
  be_score :: real
  be_weight :: real
  be_explanation :: string
  be_contribution :: real

text \<open>
  The rating result is a dict with one of two layouts: the short-circuit one has the
  keys \<open>overall_score\<close>, \<open>detailed_scores\<close> and \<open>error\<close>, the regular one has no
  \<open>error\<close> key.
\<close>

record rating_result =
  rr_overall_score :: real
  rr_detailed_scores :: "(string, real) dict"
  rr_error :: "string option"
  rr_rating_category :: "string option"
  rr_rating_description :: "string option"
  rr_score_breakdown :: "breakdown_entry list option"
  rr_improvement_priority :: "string list option"

text \<open>The explanations table of \<open>_generate_score_breakdown\<close>, and its loop.\<close>

definition explanations :: "(string, string) dict" where
  "explanations =
     [(''skills_diversity'', ''Variety of skill categories (technical, soft skills, tools)''),
      (''skills_quantity'', ''Total number of skills mentioned throughout resume''),
      (''contact_completeness'', ''Presence of email, phone, LinkedIn, GitHub''),
      (''sections_completeness'', ''Essential sections: experience, education, skills, projects''),
      (''readability'', ''Text clarity, sentence length, and complexity''),
      (''project_quality'', ''Number and quality of project descriptions''),
      (''content_length'', ''Appropriate resume length (not too short or long)'')]"

text \<open>\<open>criterion.replace('_', ' ').title()\<close>.\<close>

definition display_name :: "string \<Rightarrow> string" where
  "display_name criterion = title (replace_char (CHR ''_'') (CHR '' '') criterion)"

fun breakdown_loop ::
  "breakdown_entry list \<Rightarrow> (string, real) dict \<Rightarrow> py_error + breakdown_entry list" where
  "breakdown_loop breakdown [] = Inr breakdown"
| "breakdown_loop breakdown ((criterion, score) # rest) =
     (case dict_item weights criterion of
        Inl e \<Rightarrow> Inl e
      | Inr w \<Rightarrow>
          (case dict_item explanations criterion of
             Inl e \<Rightarrow> Inl e
           | Inr ex \<Rightarrow>
               breakdown_loop
                 (breakdown @
                  [\<lparr>be_criterion = display_name criterion, be_score = score,
                    be_weight = w * 100, be_explanation = ex,
                    be_contribution = py_round (score * w) 1\<rparr>])
                 rest))"

text \<open>
  \<open>sort(key, reverse=True)\<close> is stable: entries with equal keys keep their order.
\<close>

definition sort_key_reverse :: "('a \<Rightarrow> real) \<Rightarrow> 'a list \<Rightarrow> 'a list" where
  "sort_key_reverse f xs = rev (sort_key f (rev xs))"

definition generate_score_breakdown ::
  "(string, real) dict \<Rightarrow> py_error + breakdown_entry list" where
  "generate_score_breakdown detailed_scores =
     (case breakdown_loop [] detailed_scores of
        Inl e \<Rightarrow> Inl e
      | Inr breakdown \<Rightarrow> Inr (sort_key_reverse be_contribution breakdown))"

text \<open>The loop of \<open>_identify_improvement_priorities\<close>.\<close>

fun priorities_loop :: "string list \<Rightarrow> (string \<times> real) list \<Rightarrow> string list" where
  "priorities_loop priorities [] = priorities"
| "priorities_loop priorities ((criterion, score) # rest) =
     priorities_loop
       (if score < 7 then priorities @ [display_name criterion] else priorities) rest"

text \<open>\<open>sorted(items, key)\<close> is a stable sort, as \<open>sort_key\<close> is.\<close>

definition identify_improvement_priorities :: "(string, real) dict \<Rightarrow> string list" where
  "identify_improvement_priorities detailed_scores =
     (let sorted_scores = sort_key snd detailed_scores
      in priorities_loop [] (take 3 sorted_scores))"

text \<open>The weighted sum over the items of \<open>detailed_scores\<close>, from the left.\<close>

fun weighted_sum :: "real \<Rightarrow> (string, real) dict \<Rightarrow> py_error + real" where
  "weighted_sum acc [] = Inr acc"
| "weighted_sum acc ((criterion, score) # rest) =
     (case dict_item weights criterion of
        Inl e \<Rightarrow> Inl e
      | Inr w \<Rightarrow> weighted_sum (acc + score * w) rest)"

text \<open>The rating category and its description.\<close>

definition rating_of :: "real \<Rightarrow> string \<times> string" where
  "rating_of overall_score =
     (if overall_score \<ge> 8.5 then
        (''Excellent'', ''Outstanding resume with strong impact potential'')
      else if overall_score \<ge> 7 then
        (''Good'', ''Solid resume with room for minor improvements'')
      else if overall_score \<ge> 5.5 then
        (''Average'', ''Decent resume but needs significant improvements'')
      else if overall_score \<ge> 3 then
        (''Below Average'', ''Resume needs major improvements to be competitive'')
      else (''Poor'', ''Resume requires complete overhaul''))"

text \<open>The dict \<open>detailed_scores\<close> that \<open>calculate_overall_score\<close> builds.\<close>

definition score_all :: "analysis_result \<Rightarrow> (string, real) dict" where
  "score_all analysis =
     (let skills = get_or (ar_skills analysis) [];
          contact_info = get_or (ar_contact_info analysis) [];
          sections = get_or (ar_sections analysis) [];
          readability = get_or (ar_readability analysis) no_metrics;
          projects = get_or (ar_projects analysis) [];
          wc = get_or (word_count readability) 0
      in [(''skills_diversity'', score_skills_diversity skills),
          (''skills_quantity'', score_skills_quantity skills),
          (''contact_completeness'', score_contact_completeness contact_info),
          (''sections_completeness'', score_sections_completeness sections),
          (''readability'', score_readability readability),
          (''project_quality'', score_project_quality projects),
          (''content_length'', score_content_length wc)])"

definition calculate_overall_score :: "analysis_result \<Rightarrow> py_error + rating_result" where
  "calculate_overall_score analysis =
     (case ar_error analysis of
        Some err \<Rightarrow>
          Inr \<lparr>rr_overall_score = 0, rr_detailed_scores = [], rr_error = Some err,
               rr_rating_category = None, rr_rating_description = None,
               rr_score_breakdown = None, rr_improvement_priority = None\<rparr>
      | None \<Rightarrow>
          (let detailed_scores = score_all analysis
           in case weighted_sum 0 detailed_scores of
                Inl e \<Rightarrow> Inl e
              | Inr weighted \<Rightarrow>
                  (let overall_score = py_round weighted 1;
                       (rating_category, rating_description) = rating_of overall_score
                   in case generate_score_breakdown detailed_scores of
                        Inl e \<Rightarrow> Inl e
                      | Inr breakdown \<Rightarrow>
                          Inr \<lparr>rr_overall_score = overall_score,
                               rr_detailed_scores =
                                 map (\<lambda>(k, v). (k, py_round v 1)) detailed_scores,
                               rr_error = None,
                               rr_rating_category = Some rating_category,
                               rr_rating_description = Some rating_description,
                               rr_score_breakdown = Some breakdown,
                               rr_improvement_priority =
                                 Some (identify_improvement_priorities detailed_scores)\<rparr>)))"

section \<open>The suggestions system (\<open>suggestions.py\<close>)\<close>

text \<open>
  The module draws from Python's global random generator.  The generator is modelled
  by the stream of numbers it will deliver, \<open>random.choice\<close> taking the next number
  modulo the length of the sequence, so that every entry can be chosen; on an empty
  sequence it raises \<open>IndexError\<close>.
\<close>

type_synonym rng = "nat \<Rightarrow> nat"

definition random_choice :: "rng \<Rightarrow> 'a list \<Rightarrow> py_error + ('a \<times> rng)" where
  "random_choice g xs =
     (if xs = [] then Inl IndexError
      else Inr (xs ! (g 0 mod length xs), \<lambda>n. g (Suc n)))"

definition section_suggestions :: "(string, string list) dict" where
  "section_suggestions =
     [(''summary'',
        [''Add a professional summary highlighting your key achievements'',
         ''Include 2-3 lines summarizing your expertise and career goals'',
         ''Mention years of experience and key specializations'',
         ''Include your most impressive accomplishment or metric'']),
      (''experience'',
        [''Use action verbs to start each bullet point (Developed, Implemented, Led)'',
         ''Include quantifiable achievements and metrics'',
         ''Mention specific technologies and tools used'',
         ''Focus on impact and results rather than just responsibilities'']),
      (''education'',
        [''Include your degree, major, university, and graduation year'',
         ''Add relevant coursework if you're a recent graduate'',
         ''Mention academic achievements, honors, or high GPA'',
         ''Include relevant certifications and professional development'']),
      (''skills'',
        [''Organize skills into categories (Technical, Languages, Tools)'',
         ''List skills in order of proficiency'',
         ''Include both hard and soft skills'',
         ''Match skills to job requirements when possible'']),
      (''projects'',
        [''Include 2-4 relevant projects with brief descriptions'',
         ''Mention technologies used and your role'',
         ''Add links to GitHub repos or live demos'',
         ''Quantify impact or results where possible''])]"

text \<open>The pictographs that open the messages, as their UTF-8 bytes.\<close>

definition warning_sign :: string where
  "warning_sign = [CHR 0xE2, CHR 0x9A, CHR 0xA0, CHR 0xEF, CHR 0xB8, CHR 0x8F]"

definition heavy_plus_sign :: string where
  "heavy_plus_sign = [CHR 0xE2, CHR 0x9E, CHR 0x95]"

definition pencil :: string where
  "pencil = [CHR 0xE2, CHR 0x9C, CHR 0x8F, CHR 0xEF, CHR 0xB8, CHR 0x8F]"

definition memo :: string where
  "memo = [CHR 0xF0, CHR 0x9F, CHR 0x93, CHR 0x9D]"

definition scissors :: string where
  "scissors = [CHR 0xE2, CHR 0x9C, CHR 0x82, CHR 0xEF, CHR 0xB8, CHR 0x8F]"

definition dart :: string where
  "dart = [CHR 0xF0, CHR 0x9F, CHR 0x8E, CHR 0xAF]"

definition thought_balloon :: string where
  "thought_balloon = [CHR 0xF0, CHR 0x9F, CHR 0x92, CHR 0xAD]"

definition rocket :: string where
  "rocket = [CHR 0xF0, CHR 0x9F, CHR 0x9A, CHR 0x80]"

definition clipboard :: string where
  "clipboard = [CHR 0xF0, CHR 0x9F, CHR 0x93, CHR 0x8B]"

definition telephone_receiver :: string where
  "telephone_receiver = [CHR 0xF0, CHR 0x9F, CHR 0x93, CHR 0x9E]"

subsection \<open>Section suggestions\<close>

text \<open>
  The three loops of \<open>generate_section_suggestions\<close>: over the essential sections,
  over the important sections, and over the items of the sections dict.
\<close>

definition missing_essential :: "(string, bool) dict \<Rightarrow> string list \<Rightarrow> string list" where
  "missing_essential sections_analysis suggestions =
     foldl (\<lambda>suggestions section.
              if \<not> dict_get sections_analysis section False
              then suggestions @
                [warning_sign @ '' **Missing '' @ title section @
                 '' Section**: This is essential for any resume'']
              else suggestions)
       suggestions [''experience'', ''education'', ''skills'']"

fun missing_important ::
  "(string, bool) dict \<Rightarrow> string list \<Rightarrow> rng \<Rightarrow> string list \<Rightarrow> py_error + (string list \<times> rng)"
  where
  "missing_important sections_analysis suggestions g [] = Inr (suggestions, g)"
| "missing_important sections_analysis suggestions g (section # rest) =
     (if \<not> dict_get sections_analysis section False then
        (case dict_item section_suggestions section of
           Inl e \<Rightarrow> Inl e
         | Inr pool \<Rightarrow>
             (case random_choice g pool of
                Inl e \<Rightarrow> Inl e
              | Inr (suggestion, g') \<Rightarrow>
                  missing_important sections_analysis
                    (suggestions @
                     [heavy_plus_sign @ '' **Add '' @ title section @ '' Section**: '' @
                      suggestion])
                    g' rest))
      else missing_important sections_analysis suggestions g rest)"

fun improve_existing ::
  "string list \<Rightarrow> rng \<Rightarrow> (string, bool) dict \<Rightarrow> py_error + (string list \<times> rng)" where
  "improve_existing suggestions g [] = Inr (suggestions, g)"
| "improve_existing suggestions g ((section, present) # rest) =
     (if present \<and> dict_in section section_suggestions then
        (case dict_item section_suggestions section of
           Inl e \<Rightarrow> Inl e
         | Inr pool \<Rightarrow>
             (case random_choice g pool of
                Inl e \<Rightarrow> Inl e
              | Inr (suggestion, g') \<Rightarrow>
                  improve_existing
                    (suggestions @
                     [pencil @ '' **Improve '' @ title section @ '' Section**: '' @ suggestion])
                    g' rest))
      else improve_existing suggestions g rest)"

definition generate_section_suggestions ::
  "(string, bool) dict \<Rightarrow> (string, real) dict \<Rightarrow> rng \<Rightarrow> py_error + (string list \<times> rng)"
  where
  "generate_section_suggestions sections_analysis detailed_scores g =
     (let suggestions = missing_essential sections_analysis []
      in case missing_important sections_analysis suggestions g [''summary'', ''projects''] of
           Inl e \<Rightarrow> Inl e
         | Inr (suggestions, g) \<Rightarrow>
             if dict_get detailed_scores ''sections_completeness'' 0 < 8
             then improve_existing suggestions g sections_analysis
             else Inr (suggestions, g))"

subsection \<open>Content suggestions\<close>

text \<open>
  The four blocks of \<open>generate_content_suggestions\<close>, each of which appends to the
  suggestions it is given.
\<close>

definition content_length_suggestions ::
  "analysis_result \<Rightarrow> (string, real) dict \<Rightarrow> string list \<Rightarrow> string list" where
  "content_length_suggestions analysis detailed_scores suggestions =
     (let wc = get_or (word_count (get_or (ar_readability analysis) no_metrics)) 0
      in if dict_get detailed_scores ''content_length'' 0 < 7 then
           (if wc < 150 then
              suggestions @
                [memo @ '' **Content Length**: Your resume is too brief. Add more details about your experience and achievements'']
            else if wc > 800 then
              suggestions @
                [scissors @ '' **Content Length**: Your resume is too long. Focus on the most relevant and impactful information'']
            else suggestions)
         else suggestions)"

definition readability_suggestions ::
  "analysis_result \<Rightarrow> (string, real) dict \<Rightarrow> string list \<Rightarrow> string list" where
  "readability_suggestions analysis detailed_scores suggestions =
     (let readability = get_or (ar_readability analysis) no_metrics
      in if dict_get detailed_scores ''readability'' 0 < 7 then
           (let sentence_length = get_or (avg_sentence_length readability) 20;
                suggestions =
                  (if sentence_length > 25 then
                     suggestions @
                       [dart @ '' **Readability**: Use shorter, more concise sentences for better readability'']
                   else suggestions);
                ratio = get_or (complexity_ratio readability) 0.3
            in if ratio > 0.5 then
                 suggestions @
                   [thought_balloon @ '' **Readability**: Simplify complex words where possible while maintaining professionalism'']
               else suggestions)
         else suggestions)"

definition project_suggestions ::
  "analysis_result \<Rightarrow> (string, real) dict \<Rightarrow> string list \<Rightarrow> string list" where
  "project_suggestions analysis detailed_scores suggestions =
     (let projects = get_or (ar_projects analysis) []
      in if dict_get detailed_scores ''project_quality'' 0 < 7 then
           (let suggestions =
                  (if length projects = 0 then
                     suggestions @
                       [rocket @ '' **Projects**: Add 2-3 relevant projects that showcase your skills'']
                   else if length projects < 3 then
                     suggestions @
                       [rocket @ '' **Projects**: Add more projects to demonstrate your practical experience'']
                   else suggestions);
                short_projects = filter (\<lambda>p. length (split p) < 10) projects
            in if short_projects \<noteq> [] then
                 suggestions @
                   [clipboard @ '' **Project Descriptions**: Expand your project descriptions with technologies used and impact achieved'']
               else suggestions)
         else suggestions)"

definition contact_suggestions ::
  "analysis_result \<Rightarrow> (string, real) dict \<Rightarrow> string list \<Rightarrow> string list" where
  "contact_suggestions analysis detailed_scores suggestions =
     (let contact_info = get_or (ar_contact_info analysis) []
      in if dict_get detailed_scores ''contact_completeness'' 0 < 8 then
           (let missing_contact = [];
                missing_contact =
                  (if \<not> dict_in ''email'' contact_info
                   then missing_contact @ [''professional email''] else missing_contact);
                missing_contact =
                  (if \<not> dict_in ''phone'' contact_info
                   then missing_contact @ [''phone number''] else missing_contact);
                missing_contact =
                  (if \<not> dict_in ''linkedin'' contact_info
                   then missing_contact @ [''LinkedIn profile''] else missing_contact)
            in if missing_contact \<noteq> [] then
                 suggestions @
                   [telephone_receiver @ '' **Contact Info**: Add '' @ join '', '' missing_contact]
               else suggestions)
         else suggestions)"

definition generate_content_suggestions ::
  "analysis_result \<Rightarrow> (string, real) dict \<Rightarrow> string list" where
  "generate_content_suggestions analysis detailed_scores =
     (let suggestions = [];
          suggestions = content_length_suggestions analysis detailed_scores suggestions;
          suggestions = readability_suggestions analysis detailed_scores suggestions;
          suggestions = project_suggestions analysis detailed_scores suggestions;
          suggestions = contact_suggestions analysis detailed_scores suggestions
      in suggestions)"

subsection \<open>The tier of important suggestions\<close>

text \<open>
  \<open>generate_priority_suggestions\<close> fills three tiers.  This is the tier
  \<open>important\<close> of its result: the slices \<open>[2:4]\<close> of the content suggestions and
  of the section suggestions, without empty strings and without duplicates (the
  order in which Python lists a set is not fixed; the order of first occurrence
  stands for it).  The generator \<open>g\<close> is in the state that the critical tier left
  it in, which no part of that tier's result determines.
\<close>

definition important_suggestions ::
  "analysis_result \<Rightarrow> rating_result \<Rightarrow> rng \<Rightarrow> py_error + string list" where
  "important_suggestions analysis rating g =
     (let detailed_scores = rr_detailed_scores rating;
          important = [];
          important = important @ slice 2 4 (generate_content_suggestions analysis detailed_scores)
      in case generate_section_suggestions (get_or (ar_sections analysis) []) detailed_scores g of
           Inl e \<Rightarrow> Inl e
         | Inr (section, g') \<Rightarrow>
             (let important = important @ slice 2 4 section
              in Inr (remdups (filter (\<lambda>s. s \<noteq> []) important))))"

section \<open>The text analyzer (\<open>text_analyzer.py\<close>)\<close>

subsection \<open>Job comparison\<close>

text \<open>\<open>a in b\<close> for strings: \<open>a\<close> occurs in \<open>b\<close>.\<close>

fun contains :: "string \<Rightarrow> string \<Rightarrow> bool" where
  "contains needle [] = (needle = [])"
| "contains needle (c # cs) = (take (length needle) (c # cs) = needle \<or> contains needle cs)"

text \<open>
  The result of \<open>compare_with_job\<close> is a dict with one of two layouts: the error
  object has the keys \<open>error\<close>, \<open>missing_keywords\<close> and \<open>match_score\<close>, the regular
  result has every key but \<open>error\<close>.
\<close>

record job_comparison =
  jc_error :: "string option"
  jc_required_keywords :: "string list option"
  jc_matched_keywords :: "string list option"
  jc_missing_keywords :: "string list"
  jc_match_score :: real
  jc_recommendations :: "string list option"

text \<open>The loop that sorts the required keywords into missing and matched ones.\<close>

fun match_keywords ::
  "string \<Rightarrow> string list \<Rightarrow> string list \<Rightarrow> string list \<Rightarrow> string list \<times> string list" where
  "match_keywords resume_text missing matched [] = (missing, matched)"
| "match_keywords resume_text missing matched (keyword # rest) =
     (if contains (lower keyword) (lower resume_text)
      then match_keywords resume_text missing (matched @ [keyword]) rest
      else match_keywords resume_text (missing @ [keyword]) matched rest)"

text \<open>The job keywords are the dict loaded from \<open>job_keywords.json\<close>.\<close>

definition compare_with_job ::
  "(string, string list) dict \<Rightarrow> analysis_result \<Rightarrow> string \<Rightarrow> py_error + job_comparison"
  where
  "compare_with_job job_keywords resume_analysis job_title =
     (if \<not> dict_in (lower job_title) job_keywords then
        Inr \<lparr>jc_error = Some (''Job title '' @ [CHR 0x22] @ job_title @ [CHR 0x22] @
                              '' not found in database''),
             jc_required_keywords = None, jc_matched_keywords = None,
             jc_missing_keywords = [], jc_match_score = 0, jc_recommendations = None\<rparr>
      else
        (case dict_item job_keywords (lower job_title) of
           Inl e \<Rightarrow> Inl e
         | Inr required_keywords \<Rightarrow>
             (let resume_text = join '' '' (get_or (ar_keywords resume_analysis) []);
                  (missing_keywords, matched_keywords) =
                     match_keywords resume_text [] [] required_keywords;
                  match_score =
                    (if required_keywords \<noteq> []
                     then real (length matched_keywords) / real (length required_keywords) * 100
                     else 0)
              in Inr \<lparr>jc_error = None,
                      jc_required_keywords = Some required_keywords,
                      jc_matched_keywords = Some matched_keywords,
                      jc_missing_keywords = missing_keywords,
                      jc_match_score = py_round match_score 2,
                      jc_recommendations =
                        Some (map (\<lambda>keyword. ''Add '' @ [CHR 0x27] @ keyword @ [CHR 0x27] @
                                               '' to relevant sections'')
                                (take 5 missing_keywords))\<rparr>)))"

subsection \<open>Regular expressions\<close>

text \<open>
  The patterns of \<open>analyze_contact_info\<close> are built from character classes, optional
  parts, greedy repetition of a character class, the word boundary and at most one
  capturing group.  The matcher backtracks as Python's does: it lists the ways a
  pattern matches at a position in the order in which Python tries them, so the first
  is the match that Python reports.  A matching state holds the text before the
  position (reversed), the text from the position on, and what group 1 captured.
\<close>

datatype regex =
    Class string
  | Boundary
  | Seq regex regex
  | Opt regex
  | Rep nat "nat option" string
  | Group regex

type_synonym mstate = "string \<times> string \<times> string option"

definition word_chars :: string where
  "word_chars = ascii_lowercase @ ascii_uppercase @ digits @ ''_''"

definition word_at :: "string \<Rightarrow> bool" where
  "word_at s = (case s of [] \<Rightarrow> False | c # cs \<Rightarrow> c \<in> set word_chars)"

fun rmatch :: "regex \<Rightarrow> mstate \<Rightarrow> mstate list" where
  "rmatch (Class cs) (before, rest, grp) =
     (case rest of
        [] \<Rightarrow> []
      | c # rest' \<Rightarrow> if c \<in> set cs then [(c # before, rest', grp)] else [])"
| "rmatch Boundary (before, rest, grp) =
     (if word_at before \<noteq> word_at rest then [(before, rest, grp)] else [])"
| "rmatch (Seq r1 r2) st = concat (map (rmatch r2) (rmatch r1 st))"
| "rmatch (Opt r) st = rmatch r st @ [st]"
| "rmatch (Rep lo hi cs) (before, rest, grp) =
     (let n = length (takeWhile (\<lambda>c. c \<in> set cs) rest);
          m = (case hi of None \<Rightarrow> n | Some h \<Rightarrow> min n h)
      in map (\<lambda>k. (rev (take k rest) @ before, drop k rest, grp)) (rev [lo..<Suc m]))"
| "rmatch (Group r) (before, rest, grp) =
     map (\<lambda>(before', rest', grp'). (before', rest', Some (take (length rest - length rest') rest)))
       (rmatch r (before, rest, grp))"

fun seq_of :: "regex list \<Rightarrow> regex" where
  "seq_of [] = Rep 0 (Some 0) []"
| "seq_of [r] = r"
| "seq_of (r # rs) = Seq r (seq_of rs)"

fun literal :: "string \<Rightarrow> regex list" where
  "literal s = map (\<lambda>c. Class [c]) s"

fun groups :: "regex \<Rightarrow> nat" where
  "groups (Seq r1 r2) = groups r1 + groups r2"
| "groups (Opt r) = groups r"
| "groups (Group r) = Suc (groups r)"
| "groups r = 0"

text \<open>
  What \<open>findall\<close> lists for a match at a position, and the length of the match:
  the matched text for a pattern without a group, and for a pattern with a group what
  the group captured, the empty string when the group took no part in the match.
\<close>

definition match_here :: "regex \<Rightarrow> string \<Rightarrow> string \<Rightarrow> (string \<times> nat) option" where
  "match_here r before rest =
     (case rmatch r (before, rest, None) of
        [] \<Rightarrow> None
      | (before', rest', grp) # others \<Rightarrow>
          (let n = length rest - length rest'
           in Some (if groups r = 0 then take n rest else get_or grp [], n)))"

text \<open>
  \<open>re.findall\<close>: the matches from left to right, the search going on where the last
  match ended (\<open>skip\<close> counts the characters of a match still to pass).
\<close>

fun findall_from :: "regex \<Rightarrow> string \<Rightarrow> nat \<Rightarrow> string \<Rightarrow> string list" where
  "findall_from r before skip [] =
     (if skip = 0 then
        (case match_here r before [] of None \<Rightarrow> [] | Some (item, n) \<Rightarrow> [item])
      else [])"
| "findall_from r before skip (c # rest) =
     (if skip > 0 then findall_from r (c # before) (skip - 1) rest
      else
        (case match_here r before (c # rest) of
           None \<Rightarrow> findall_from r (c # before) 0 rest
         | Some (item, n) \<Rightarrow> item # findall_from r (c # before) (n - 1) rest))"

definition findall :: "regex \<Rightarrow> string \<Rightarrow> string list" where
  "findall r text = findall_from r [] 0 text"

subsection \<open>Contact information\<close>

definition email_pattern :: regex where
  "email_pattern =
     seq_of [Boundary,
             Rep 1 None (ascii_uppercase @ ascii_lowercase @ digits @ ''._%+-''),
             Class ''@'',
             Rep 1 None (ascii_uppercase @ ascii_lowercase @ digits @ ''.-''),
             Class ''.'',
             Rep 2 None (ascii_uppercase @ ''|'' @ ascii_lowercase),
             Boundary]"

definition phone_pattern :: regex where
  "phone_pattern =
     seq_of [Opt (Group (seq_of [Opt (Class ''+''), Rep 1 (Some 3) digits,
                                 Opt (Class (''-.'' @ whitespace))])),
             Opt (Class ''(''), Rep 3 (Some 3) digits, Opt (Class '')''),
             Opt (Class (''-.'' @ whitespace)),
             Rep 3 (Some 3) digits,
             Opt (Class (''-.'' @ whitespace)),
             Rep 4 (Some 4) digits]"

definition linkedin_pattern :: regex where
  "linkedin_pattern = seq_of (literal ''linkedin.com/in/'' @ [Rep 1 None (word_chars @ ''-'')])"

definition github_pattern :: regex where
  "github_pattern = seq_of (literal ''github.com/'' @ [Rep 1 None (word_chars @ ''-'')])"

text \<open>
  \<open>findall\<close> yields strings here, never tuples, since no pattern has two groups;
  so the phone entry is \<open>phones[0]\<close> itself.
\<close>

definition analyze_contact_info :: "string \<Rightarrow> (string, string) dict" where
  "analyze_contact_info text =
     (let contact_info = [];
          emails = findall email_pattern text;
          contact_info =
            (case emails of [] \<Rightarrow> contact_info
             | first # others \<Rightarrow> contact_info @ [(''email'', first)]);
          phones = findall phone_pattern text;
          contact_info =
            (case phones of [] \<Rightarrow> contact_info
             | first # others \<Rightarrow> contact_info @ [(''phone'', first)]);
          linkedin = findall linkedin_pattern (lower text);
          contact_info =
            (case linkedin of [] \<Rightarrow> contact_info
             | first # others \<Rightarrow> contact_info @ [(''linkedin'', first)]);
          github = findall github_pattern (lower text);
          contact_info =
            (case github of [] \<Rightarrow> contact_info
             | first # others \<Rightarrow> contact_info @ [(''github'', first)])
      in contact_info)"

subsection \<open>Readability metrics\<close>

text \<open>
  \<open>calculate_readability\<close> builds the readability metrics from
  the sentences and words that TextBlob finds in the text; the number of sentences and
  the list of words are the arguments here.
\<close>

definition calculate_readability :: "nat \<Rightarrow> string list \<Rightarrow> readability_metrics" where
  "calculate_readability sentences blob_words =
     (let words = length blob_words
      in if sentences = 0 \<or> words = 0 then
           \<lparr>readability_score = Some 0, avg_sentence_length = Some 0,
            word_count = Some (int words), sentence_count = None,
            complexity_ratio = None\<rparr>
         else
           (let avg = real words / real sentences;
                complex_words = length (filter (\<lambda>w. length w > 6) blob_words);
                ratio = (if words > 0 then real complex_words / real words else 0);
                rscore = max 1 (10 - (avg / 3) - (ratio * 5))
            in \<lparr>readability_score = Some (py_round rscore 2),
                avg_sentence_length = Some (py_round avg 2),
                word_count = Some (int words),
                sentence_count = Some (int sentences),
                complexity_ratio = Some (py_round ratio 2)\<rparr>))"

section \<open>Notions of the spec\<close>

text \<open>
  The spec describes the content-length curve by the end points of its linear pieces;
  this is the line through \<open>(x0, y0)\<close> and \<open>(x1, y1)\<close>, in the spec's words.
\<close>

definition linear_between :: "real \<Rightarrow> real \<Rightarrow> real \<Rightarrow> real \<Rightarrow> real \<Rightarrow> real" where
  "linear_between x0 y0 x1 y1 x = y0 + (y1 - y0) * (x - x0) / (x1 - x0)"

text \<open>
  The degenerate feature bundle of the spec: no error, empty skills, contact and
  sections maps, no projects and a word count of zero (a missing key reads as the
  empty value, as the rating system reads it).
\<close>

definition degenerate :: "analysis_result \<Rightarrow> bool" where
  "degenerate analysis =
     (ar_error analysis = None \<and>
      get_or (ar_skills analysis) [] = [] \<and>
      get_or (ar_contact_info analysis) [] = [] \<and>
      get_or (ar_sections analysis) [] = [] \<and>
      get_or (ar_projects analysis) [] = [] \<and>
      get_or (word_count (get_or (ar_readability analysis) no_metrics)) 0 = 0)"

text \<open>
  The data model of the spec has the complexity ratio between 0 and 1; it may also be
  missing from the mapping.
\<close>

definition ratio_in_range :: "readability_metrics \<Rightarrow> bool" where
  "ratio_in_range metrics =
     (case complexity_ratio metrics of None \<Rightarrow> True | Some c \<Rightarrow> 0 \<le> c \<and> c \<le> 1)"

text \<open>
  The improvement priorities in the spec's words: the criteria sorted by score
  ascending, truncated to the first three, and of those the ones scoring below 7.
\<close>

definition spec_improvement_priority :: "(string, real) dict \<Rightarrow> string list" where
  "spec_improvement_priority detailed_scores =
     map fst (filter (\<lambda>(criterion, score). score < 7) (take 3 (sort_key snd detailed_scores)))"

section \<open>Sample data\<close>

text \<open>The bundle that is empty but for its readability metrics.\<close>

definition bundle_of :: "readability_metrics \<Rightarrow> analysis_result" where
  "bundle_of metrics =
     \<lparr>ar_error = None, ar_skills = Some [], ar_keywords = Some [], ar_projects = Some [],
      ar_contact_info = Some [], ar_sections = Some [], ar_readability = Some metrics\<rparr>"

text \<open>A bundle of a short resume, used to exercise the rating system.\<close>

definition sample_bundle :: analysis_result where
  "sample_bundle =
     \<lparr>ar_error = None,
      ar_skills = Some [(''programming_languages'', [''Python'', ''Java'']),
                        (''databases'', [''SQL''])],
      ar_keywords = Some [''developer''],
      ar_projects = Some [''Built a web application for tracking orders with Python and SQL''],
      ar_contact_info = Some [(''email'', ''a@b.com''), (''phone'', [])],
      ar_sections = Some [(''experience'', True), (''skills'', True), (''summary'', False)],
      ar_readability = Some \<lparr>readability_score = Some 3.83, avg_sentence_length = Some 14,
         word_count = Some 450, sentence_count = Some 32, complexity_ratio = Some 0.3\<rparr>\<rparr>"

text \<open>The result of \<open>analyze_resume\<close> for a blank text.\<close>

definition blank_text_analysis :: analysis_result where
  "blank_text_analysis =
     \<lparr>ar_error = Some ''No text provided for analysis'', ar_skills = Some [],
      ar_keywords = Some [], ar_projects = Some [], ar_contact_info = Some [],
      ar_sections = Some [], ar_readability = Some no_metrics\<rparr>"

text \<open>
  Readability mappings that hold a word count only, a complexity ratio only, a
  sentence length only, and both of the latter.
\<close>

definition only_word_count :: readability_metrics where
  "only_word_count = no_metrics\<lparr>word_count := Some 120\<rparr>"

definition only_complexity_ratio :: readability_metrics where
  "only_complexity_ratio = no_metrics\<lparr>complexity_ratio := Some 0.1\<rparr>"

definition only_sentence_length :: readability_metrics where
  "only_sentence_length = no_metrics\<lparr>avg_sentence_length := Some 40\<rparr>"

definition long_complex_metrics :: readability_metrics where
  "long_complex_metrics =
     no_metrics\<lparr>avg_sentence_length := Some 20, complexity_ratio := Some 0.1\<rparr>"

text \<open>The ideal resume of the spec's scenario.\<close>

definition ideal_bundle :: analysis_result where
  "ideal_bundle =
     \<lparr>ar_error = None,
      ar_skills = Some
        [(''programming_languages'', [''Python'', ''Java'', ''C++'', ''Go'']),
         (''web_technologies'', [''HTML'', ''CSS'', ''React'', ''Django'']),
         (''databases'', [''SQL'', ''MongoDB'', ''Redis'']),
         (''cloud_platforms'', [''AWS'', ''Docker'', ''Kubernetes'']),
         (''soft_skills'', [''leadership'', ''communication'', ''teamwork'', ''mentoring''])],
      ar_keywords = Some [''engineer'', ''software''],
      ar_projects = Some
        [''Developed a web application for tracking customer orders with Python and Django used by forty people'',
         ''Built a data pipeline that loads two million records every night from three sources into Redis'',
         ''Designed and implemented a monitoring system on AWS that cut the response time of incidents by half''],
      ar_contact_info = Some
        [(''email'', ''jane@example.com''), (''phone'', ''+1 ''),
         (''linkedin'', ''linkedin.com/in/jane''), (''github'', ''github.com/jane'')],
      ar_sections = Some
        [(''contact'', True), (''summary'', True), (''experience'', True),
         (''education'', True), (''skills'', True), (''projects'', True),
         (''certifications'', True), (''achievements'', True)],
      ar_readability = Some
        \<lparr>readability_score = Some 3.83, avg_sentence_length = Some 14,
         word_count = Some 450, sentence_count = Some 32, complexity_ratio = Some 0.3\<rparr>\<rparr>"

text \<open>A small job keyword dict.\<close>

definition sample_job_keywords :: "(string, string list) dict" where
  "sample_job_keywords =
     [(''data scientist'', [''python'', ''statistics'', ''machine learning'']),
      (''web developer'', [''html'', ''css'', ''javascript''])]"

section \<open>Properties of the rating system\<close>

lemmas thresholds =
  min_skills_def ideal_skills_def min_word_count_def ideal_word_count_def
  max_word_count_def min_projects_def ideal_projects_def
  ideal_sentence_length_def max_sentence_length_def

subsection \<open>Content length\<close>

text \<open>
  Claim C2, as stated, has the curve fall from 10 at 400 words to 5 at 800 words.
  The code subtracts at most 3 on that piece, so it yields 7 at 800 words, not 5.
\<close>

theorem score_content_length_800_counterexample:
  "score_content_length 800 \<noteq> 5"
  by (simp add: score_content_length_def thresholds)

text \<open>
  Claim C2, amended: below 150 words the score is the line from 0 to 4 scaled by
  \<open>word_count / 150\<close>; from 150 to 400 words it is the line from 7 to 10; from 400
  to 800 words it is the line from 10 down to 7; above 800 words it is 5.  In
  particular it is 7 at 150 words, 10 at 400 words and 7 at 800 words.
\<close>

theorem score_content_length_curve:
  "(wc < 150 \<longrightarrow> score_content_length wc = linear_between 0 0 150 4 (of_int wc)) \<and>
   (150 \<le> wc \<and> wc \<le> 400 \<longrightarrow>
      score_content_length wc = linear_between 150 7 400 10 (of_int wc)) \<and>
   (400 < wc \<and> wc \<le> 800 \<longrightarrow>
      score_content_length wc = linear_between 400 10 800 7 (of_int wc)) \<and>
   (800 < wc \<longrightarrow> score_content_length wc = 5) \<and>
   score_content_length 150 = 7 \<and> score_content_length 400 = 10 \<and>
   score_content_length 800 = 7"
  by (simp add: score_content_length_def thresholds linear_between_def field_simps)

theorem score_content_length_curve_witness:
  "score_content_length 75 = 2 \<and> score_content_length 275 = 8.5 \<and>
   score_content_length 600 = 8.5 \<and> score_content_length 801 = 5"
  using score_content_length_curve [of 75] score_content_length_curve [of 275]
    score_content_length_curve [of 600] score_content_length_curve [of 801]
  by (simp add: linear_between_def)

subsection \<open>Skill scores\<close>

lemma diversity_by_length:
  "score_skills_diversity skills =
     (if length skills \<ge> 5 then 10 else if length skills = 4 then 8.5
      else if length skills = 3 then 7 else if length skills = 2 then 5.5
      else if length skills = 1 then 4 else 0)"
  by (auto simp add: score_skills_diversity_def Let_def)

lemma quantity_by_total:
  "score_skills_quantity skills =
     (let x = real_of_int (total_skills skills)
      in if x \<ge> 15 then 10 else if x \<ge> 5 then 5 + (x - 5) / 2 else x)"
  by (auto simp add: score_skills_quantity_def Let_def thresholds total_skills_def)

lemma quantity_curve_mono:
  fixes x y :: real
  assumes "x \<le> y"
  shows "(if x \<ge> 15 then 10 else if x \<ge> 5 then 5 + (x - 5) / 2 else x)
       \<le> (if y \<ge> 15 then 10 else if y \<ge> 5 then 5 + (y - 5) / 2 else y)"
  using assms by (auto simp add: field_simps)

text \<open>
  Claim C7: the diversity score never decreases when the number of skill categories
  grows, and the quantity score never decreases when the total number of skills over
  all categories grows.
\<close>

theorem skills_scores_monotone:
  "(length s1 \<le> length s2 \<longrightarrow> score_skills_diversity s1 \<le> score_skills_diversity s2) \<and>
   (total_skills t1 \<le> total_skills t2 \<longrightarrow>
      score_skills_quantity t1 \<le> score_skills_quantity t2)"
proof (intro conjI impI)
  assume "length s1 \<le> length s2"
  then show "score_skills_diversity s1 \<le> score_skills_diversity s2"
    unfolding diversity_by_length by (simp split: if_splits)
next
  assume "total_skills t1 \<le> total_skills t2"
  then have "real_of_int (total_skills t1) \<le> real_of_int (total_skills t2)"
    by simp
  then show "score_skills_quantity t1 \<le> score_skills_quantity t2"
    unfolding quantity_by_total Let_def by (rule quantity_curve_mono)
qed

theorem skills_scores_monotone_witness:
  "score_skills_diversity [(''databases'', [''sql''])]
     \<le> score_skills_diversity [(''databases'', [''sql'']), (''soft_skills'', [''teamwork''])] \<and>
   score_skills_quantity [(''databases'', [''sql''])]
     \<le> score_skills_quantity [(''databases'', [''sql'', ''mongodb''])]"
  using skills_scores_monotone [of "[(''databases'', [''sql''])]"
      "[(''databases'', [''sql'']), (''soft_skills'', [''teamwork''])]"
      "[(''databases'', [''sql''])]" "[(''databases'', [''sql'', ''mongodb''])]"]
  by (simp add: total_skills_def)

subsection \<open>Rounding\<close>

lemma py_round_le:
  assumes "x * 10 \<le> of_int k"
  shows "py_round x 1 \<le> of_int k / 10"
proof -
  define f where "f = \<lfloor>x * 10\<rfloor>"
  have fk: "f \<le> k" using assms by (simp add: f_def floor_le_iff)
  have top: "f = k \<Longrightarrow> x * 10 - of_int f \<le> 0"
    using assms by simp
  define n where "n = (if x * 10 - of_int f < 1 / 2 then f
       else if 1 / 2 < x * 10 - of_int f then f + 1 else if even f then f else f + 1)"
  have "n \<le> k" using fk top by (cases "f = k") (auto simp add: n_def)
  then have "real_of_int n \<le> real_of_int k" by simp
  moreover have "py_round x 1 = of_int n / 10"
    by (simp add: py_round_def Let_def n_def f_def)
  ultimately show ?thesis by simp
qed

lemma py_round_ge:
  assumes "of_int k \<le> x * 10"
  shows "of_int k / 10 \<le> py_round x 1"
proof -
  define f where "f = \<lfloor>x * 10\<rfloor>"
  have fk: "k \<le> f" using assms by (simp add: f_def le_floor_iff)
  define n where "n = (if x * 10 - of_int f < 1 / 2 then f
       else if 1 / 2 < x * 10 - of_int f then f + 1 else if even f then f else f + 1)"
  have "k \<le> n" using fk by (auto simp add: n_def)
  then have "real_of_int k \<le> real_of_int n" by simp
  moreover have "py_round x 1 = of_int n / 10"
    by (simp add: py_round_def Let_def n_def f_def)
  ultimately show ?thesis by simp
qed

lemma py_round_unit_interval:
  assumes "0 \<le> x" "x \<le> 10"
  shows "0 \<le> py_round x 1 \<and> py_round x 1 \<le> 10"
  using py_round_ge [of 0 x] py_round_le [of x 100] assms by simp

subsection \<open>Improvement priorities\<close>

lemma priorities_loop_eq:
  "priorities_loop acc xs =
     acc @ map (\<lambda>(criterion, score). display_name criterion)
             (filter (\<lambda>(criterion, score). score < 7) xs)"
  by (induction acc xs rule: priorities_loop.induct) simp_all

text \<open>
  Claim C6, as stated, makes the improvement priorities a list of criterion names.
  The code returns each name formatted for display instead.
\<close>

theorem improvement_priority_names_counterexample:
  "identify_improvement_priorities
     [(''skills_diversity'', 0), (''skills_quantity'', 0), (''contact_completeness'', 0),
      (''sections_completeness'', 0), (''readability'', 5), (''project_quality'', 0),
      (''content_length'', 0)]
   = [''Skills Diversity'', ''Skills Quantity'', ''Contact Completeness''] \<and>
   identify_improvement_priorities
     [(''skills_diversity'', 0), (''skills_quantity'', 0), (''contact_completeness'', 0),
      (''sections_completeness'', 0), (''readability'', 5), (''project_quality'', 0),
      (''content_length'', 0)]
   \<noteq> spec_improvement_priority
     [(''skills_diversity'', 0), (''skills_quantity'', 0), (''contact_completeness'', 0),
      (''sections_completeness'', 0), (''readability'', 5), (''project_quality'', 0),
      (''content_length'', 0)]"
  by (simp add: identify_improvement_priorities_def spec_improvement_priority_def
      display_name_def title_def replace_char_def is_upper_def is_lower_def to_upper_def
      to_lower_def ascii_lowercase_def ascii_uppercase_def dict_get_def)

text \<open>
  Claim C6, amended: the improvement priorities are the criteria sorted by score
  ascending (criteria with equal scores keep the order of the mapping), truncated to
  the first three and filtered to those scoring strictly below 7, each criterion name
  being formatted for display: underscores become spaces and every word is
  capitalised.  The list has at most three entries.
\<close>

theorem improvement_priority_display_names:
  "identify_improvement_priorities detailed_scores =
     map display_name (spec_improvement_priority detailed_scores) \<and>
   length (identify_improvement_priorities detailed_scores) \<le> 3"
proof -
  have "identify_improvement_priorities detailed_scores =
     map display_name (spec_improvement_priority detailed_scores)"
    by (simp add: identify_improvement_priorities_def spec_improvement_priority_def
        priorities_loop_eq Let_def case_prod_unfold comp_def)
  moreover have "length (spec_improvement_priority detailed_scores) \<le> 3"
    unfolding spec_improvement_priority_def
    by (simp add: le_trans [OF length_filter_le])
  ultimately show ?thesis by simp
qed

subsection \<open>Score bounds\<close>

lemma total_skills_nonneg: "0 \<le> total_skills skills"
  unfolding total_skills_def by (induction skills) auto

lemma diversity_bounds:
  "0 \<le> score_skills_diversity skills \<and> score_skills_diversity skills \<le> 10"
  unfolding diversity_by_length by simp

lemma quantity_curve_bounds:
  fixes x :: real
  assumes "0 \<le> x"
  shows "0 \<le> (if x \<ge> 15 then 10 else if x \<ge> 5 then 5 + (x - 5) / 2 else x) \<and>
         (if x \<ge> 15 then 10 else if x \<ge> 5 then 5 + (x - 5) / 2 else x) \<le> 10"
  using assms by (auto simp add: field_simps)

lemma quantity_bounds:
  "0 \<le> score_skills_quantity skills \<and> score_skills_quantity skills \<le> 10"
proof -
  have "0 \<le> real_of_int (total_skills skills)"
    using total_skills_nonneg [of skills] by simp
  then show ?thesis
    unfolding quantity_by_total Let_def by (rule quantity_curve_bounds)
qed

lemma contact_bounds:
  "0 \<le> score_contact_completeness contact_info \<and>
   score_contact_completeness contact_info \<le> 10"
  by (simp add: score_contact_completeness_def Let_def)

lemma sections_bounds:
  "0 \<le> score_sections_completeness sections \<and>
   score_sections_completeness sections \<le> 10"
  by (simp add: score_sections_completeness_def Let_def)

lemma readability_bounds:
  "0 \<le> score_readability metrics \<and> score_readability metrics \<le> 10"
  by (simp add: score_readability_def Let_def)

lemma quality_step_grows: "acc \<le> foldl quality_step acc projects"
proof (induction projects arbitrary: acc)
  case Nil
  show ?case by simp
next
  case (Cons p ps)
  have "acc \<le> quality_step acc p"
    by (simp add: quality_step_def Let_def)
  also have "\<dots> \<le> foldl quality_step (quality_step acc p) ps"
    by (rule Cons.IH)
  finally show ?case by simp
qed

lemma quantity_score_nonneg: "0 \<le> n \<Longrightarrow> 0 \<le> quantity_score n"
  by (simp add: quantity_score_def thresholds)

lemma project_bounds:
  "0 \<le> score_project_quality projects \<and> score_project_quality projects \<le> 10"
proof -
  have "0 \<le> quantity_score (int (length projects))"
    by (rule quantity_score_nonneg) simp
  moreover have "0 \<le> foldl quality_step 0 (take 3 projects)"
    by (rule quality_step_grows)
  ultimately show ?thesis
    by (simp add: score_project_quality_def Let_def)
qed

lemma content_bounds:
  assumes "0 \<le> wc"
  shows "0 \<le> score_content_length wc \<and> score_content_length wc \<le> 10"
proof -
  have r: "0 \<le> real_of_int wc" using assms by simp
  consider "wc < 150" | "150 \<le> wc" "wc \<le> 400" | "400 < wc" "wc \<le> 800" | "800 < wc"
    by linarith
  then show ?thesis
  proof cases
    case 1
    then have "real_of_int wc < 150" by simp
    with 1 r show ?thesis by (simp add: score_content_length_def thresholds)
  next
    case 2
    then have "150 \<le> real_of_int wc" "real_of_int wc \<le> 400" by simp_all
    with 2 show ?thesis by (simp add: score_content_length_def thresholds field_simps)
  next
    case 3
    then have "400 < real_of_int wc" "real_of_int wc \<le> 800" by simp_all
    with 3 show ?thesis by (simp add: score_content_length_def thresholds field_simps)
  next
    case 4
    then show ?thesis by (simp add: score_content_length_def thresholds)
  qed
qed

lemma score_all_shape:
  "score_all a =
     [(''skills_diversity'', score_skills_diversity (get_or (ar_skills a) [])),
      (''skills_quantity'', score_skills_quantity (get_or (ar_skills a) [])),
      (''contact_completeness'', score_contact_completeness (get_or (ar_contact_info a) [])),
      (''sections_completeness'', score_sections_completeness (get_or (ar_sections a) [])),
      (''readability'', score_readability (get_or (ar_readability a) no_metrics)),
      (''project_quality'', score_project_quality (get_or (ar_projects a) [])),
      (''content_length'',
        score_content_length (get_or (word_count (get_or (ar_readability a) no_metrics)) 0))]"
  by (simp add: score_all_def Let_def)

lemma weighted_sum_score_all:
  "weighted_sum 0 (score_all a) =
     Inr (score_skills_diversity (get_or (ar_skills a) []) * 0.20 +
          score_skills_quantity (get_or (ar_skills a) []) * 0.15 +
          score_contact_completeness (get_or (ar_contact_info a) []) * 0.10 +
          score_sections_completeness (get_or (ar_sections a) []) * 0.15 +
          score_readability (get_or (ar_readability a) no_metrics) * 0.15 +
          score_project_quality (get_or (ar_projects a) []) * 0.15 +
          score_content_length
            (get_or (word_count (get_or (ar_readability a) no_metrics)) 0) * 0.10)"
  unfolding score_all_shape by (simp add: dict_item_def weights_def)

lemma breakdown_score_all: "\<exists>bd. generate_score_breakdown (score_all a) = Inr bd"
  unfolding score_all_shape
  by (simp add: generate_score_breakdown_def dict_item_def weights_def explanations_def)

lemma calculate_overall_score_regular:
  assumes "ar_error a = None" and "weighted_sum 0 (score_all a) = Inr w"
  shows "\<exists>bd. calculate_overall_score a =
     Inr \<lparr>rr_overall_score = py_round w 1,
          rr_detailed_scores = map (\<lambda>(k, v). (k, py_round v 1)) (score_all a),
          rr_error = None,
          rr_rating_category = Some (fst (rating_of (py_round w 1))),
          rr_rating_description = Some (snd (rating_of (py_round w 1))),
          rr_score_breakdown = Some bd,
          rr_improvement_priority = Some (identify_improvement_priorities (score_all a))\<rparr>"
proof -
  obtain bd where "generate_score_breakdown (score_all a) = Inr bd"
    using breakdown_score_all by blast
  with assms show ?thesis
    by (simp add: calculate_overall_score_def Let_def case_prod_unfold)
qed

lemma weighted_bounds:
  fixes a b c d e f g :: real
  assumes "0 \<le> a \<and> a \<le> 10" "0 \<le> b \<and> b \<le> 10" "0 \<le> c \<and> c \<le> 10" "0 \<le> d \<and> d \<le> 10"
    "0 \<le> e \<and> e \<le> 10" "0 \<le> f \<and> f \<le> 10" "0 \<le> g \<and> g \<le> 10"
  shows "0 \<le> a * 0.20 + b * 0.15 + c * 0.10 + d * 0.15 + e * 0.15 + f * 0.15 + g * 0.10 \<and>
         a * 0.20 + b * 0.15 + c * 0.10 + d * 0.15 + e * 0.15 + f * 0.15 + g * 0.10 \<le> 10"
  using assms by simp

lemma rounded_bounds:
  assumes "list_all (\<lambda>(k, v). 0 \<le> v \<and> v \<le> 10) xs"
  shows "list_all (\<lambda>(k, v). 0 \<le> v \<and> v \<le> 10)
           (map (\<lambda>(k, v). (k :: string, py_round v 1)) xs)"
  using assms
proof (induction xs)
  case Nil
  show ?case by simp
next
  case (Cons p ps)
  obtain k v where p: "p = (k, v)" by (cases p)
  with Cons.prems have "0 \<le> v" "v \<le> 10" by simp_all
  then have "0 \<le> py_round v 1 \<and> py_round v 1 \<le> 10"
    by (rule py_round_unit_interval)
  with Cons p show ?case by (simp del: One_nat_def)
qed

text \<open>
  The bound on the content-length score needs a word count that is not negative, as
  the length of a list of words is.
\<close>

lemma negative_word_count_score: "score_content_length (- 150) = - 4"
  by (simp add: score_content_length_def thresholds)

text \<open>
  Claim C5: for every feature bundle, whose word count is not negative, the rating
  system returns a report; each of the detailed scores, before and after rounding,
  lies between 0 and 10, and so does the overall score.
\<close>

theorem scores_within_bounds:
  assumes "0 \<le> get_or (word_count (get_or (ar_readability a) no_metrics)) 0"
  shows "\<exists>r. calculate_overall_score a = Inr r \<and>
           list_all (\<lambda>(k, v). 0 \<le> v \<and> v \<le> 10) (score_all a) \<and>
           list_all (\<lambda>(k, v). 0 \<le> v \<and> v \<le> 10) (rr_detailed_scores r) \<and>
           0 \<le> rr_overall_score r \<and> rr_overall_score r \<le> 10"
proof (cases "ar_error a")
  case (Some err)
  moreover have "list_all (\<lambda>(k, v). 0 \<le> v \<and> v \<le> 10) (score_all a)"
    unfolding score_all_shape
    using diversity_bounds quantity_bounds contact_bounds sections_bounds
      readability_bounds project_bounds content_bounds [OF assms]
    by simp
  ultimately show ?thesis
    by (simp add: calculate_overall_score_def)
next
  case None
  let ?wc = "get_or (word_count (get_or (ar_readability a) no_metrics)) 0"
  obtain w where w: "weighted_sum 0 (score_all a) = Inr w"
    and wb: "0 \<le> w \<and> w \<le> 10"
    using weighted_sum_score_all [of a]
      weighted_bounds [OF diversity_bounds quantity_bounds contact_bounds sections_bounds
        readability_bounds project_bounds content_bounds [OF assms]]
    by blast
  obtain bd where r: "calculate_overall_score a =
     Inr \<lparr>rr_overall_score = py_round w 1,
          rr_detailed_scores = map (\<lambda>(k, v). (k, py_round v 1)) (score_all a),
          rr_error = None,
          rr_rating_category = Some (fst (rating_of (py_round w 1))),
          rr_rating_description = Some (snd (rating_of (py_round w 1))),
          rr_score_breakdown = Some bd,
          rr_improvement_priority = Some (identify_improvement_priorities (score_all a))\<rparr>"
    using calculate_overall_score_regular [OF None w] by blast
  have raw: "list_all (\<lambda>(k, v). 0 \<le> v \<and> v \<le> 10) (score_all a)"
    unfolding score_all_shape
    using diversity_bounds quantity_bounds contact_bounds sections_bounds
      readability_bounds project_bounds content_bounds [OF assms]
    by simp
  have rounded: "list_all (\<lambda>(k, v). 0 \<le> v \<and> v \<le> 10)
      (map (\<lambda>(k, v). (k, py_round v 1)) (score_all a))"
    using raw by (rule rounded_bounds)
  have "0 \<le> py_round w 1 \<and> py_round w 1 \<le> 10"
    using wb py_round_unit_interval [of w] by blast
  with r raw rounded show ?thesis by simp
qed

lemma sample_scores: "score_all sample_bundle = 
  [(''skills_diversity'', 5.5), (''skills_quantity'', 3), (''contact_completeness'', 7),
   (''sections_completeness'', 4), (''readability'', 10), (''project_quality'', 4), (''content_length'', 9.625)]"
  by (simp add: score_all_def sample_bundle_def get_or_def Let_def
     score_skills_diversity_def score_skills_quantity_def total_skills_def
     score_contact_completeness_def score_sections_completeness_def score_readability_def
     score_project_quality_def score_content_length_def thresholds no_metrics_def
     dict_in_def dict_get_def length_score_def complexity_score_def quantity_score_def
     quality_step_def split_def is_space_def whitespace_def)

theorem scores_within_bounds_witness:
  "0 \<le> get_or (word_count (get_or (ar_readability sample_bundle) no_metrics)) 0 \<and>
   (\<exists>r. calculate_overall_score sample_bundle = Inr r \<and>
           rr_detailed_scores r =
             [(''skills_diversity'', 5.5), (''skills_quantity'', 3),
              (''contact_completeness'', 7), (''sections_completeness'', 4),
              (''readability'', 10), (''project_quality'', 4), (''content_length'', 9.6)] \<and>
           rr_overall_score r = 5.9 \<and>
           list_all (\<lambda>(k, v). 0 \<le> v \<and> v \<le> 10) (rr_detailed_scores r) \<and>
           0 \<le> rr_overall_score r \<and> rr_overall_score r \<le> 10)"
proof -
  have h: "0 \<le> get_or (word_count (get_or (ar_readability sample_bundle) no_metrics)) 0"
    by (simp add: sample_bundle_def get_or_def)
  have e: "ar_error sample_bundle = None" by (simp add: sample_bundle_def)
  have w: "weighted_sum 0 (score_all sample_bundle) = Inr 5.9125"
    unfolding sample_scores by (simp add: dict_item_def weights_def)
  obtain bd where r: "calculate_overall_score sample_bundle =
     Inr \<lparr>rr_overall_score = py_round 5.9125 1,
          rr_detailed_scores = map (\<lambda>(k, v). (k, py_round v 1)) (score_all sample_bundle),
          rr_error = None,
          rr_rating_category = Some (fst (rating_of (py_round 5.9125 1))),
          rr_rating_description = Some (snd (rating_of (py_round 5.9125 1))),
          rr_score_breakdown = Some bd,
          rr_improvement_priority =
            Some (identify_improvement_priorities (score_all sample_bundle))\<rparr>"
    using calculate_overall_score_regular [OF e w] by blast
  have v: "py_round 5.9125 1 = 5.9"
    "map (\<lambda>(k, v). (k, py_round v 1)) (score_all sample_bundle) =
       [(''skills_diversity'', 5.5), (''skills_quantity'', 3),
        (''contact_completeness'', 7), (''sections_completeness'', 4),
        (''readability'', 10), (''project_quality'', 4), (''content_length'', 9.6)]"
    unfolding sample_scores by (simp_all add: py_round_def)
  show ?thesis using h scores_within_bounds [OF h] unfolding r v by simp
qed


subsection \<open>Upstream errors\<close>

text \<open>
  Claim C8: for an analysis result that carries an error, the rating system does not
  raise; it returns at once a result whose overall score is 0, whose detailed scores
  are the empty mapping and whose error is the one it was given.
\<close>

theorem error_short_circuit:
  assumes "ar_error a = Some err"
  shows "calculate_overall_score a =
     Inr \<lparr>rr_overall_score = 0, rr_detailed_scores = [], rr_error = Some err,
          rr_rating_category = None, rr_rating_description = None,
          rr_score_breakdown = None, rr_improvement_priority = None\<rparr>"
  using assms by (simp add: calculate_overall_score_def)

theorem error_short_circuit_witness:
  "ar_error blank_text_analysis = Some ''No text provided for analysis'' \<and>
   calculate_overall_score blank_text_analysis =
     Inr \<lparr>rr_overall_score = 0, rr_detailed_scores = [],
          rr_error = Some ''No text provided for analysis'',
          rr_rating_category = None, rr_rating_description = None,
          rr_score_breakdown = None, rr_improvement_priority = None\<rparr>"
proof -
  have h: "ar_error blank_text_analysis = Some ''No text provided for analysis''"
    by (simp add: blank_text_analysis_def)
  show ?thesis using h error_short_circuit [OF h] by simp
qed

subsection \<open>Readability defaults\<close>

lemma readability_nonempty:
  "score_readability m =
     (if m = no_metrics then 5
      else max 0 (min (length_score (get_or (avg_sentence_length m) 20)
                       + complexity_score (get_or (complexity_ratio m) 0.3)) 10))"
  by (simp add: score_readability_def Let_def)

lemma length_score_explicit:
  "length_score l =
     (if l \<le> 15 then 5 else if l \<le> 25 then 5 - (l - 15) / 10 * 2 else 3)"
  by (simp add: length_score_def ideal_sentence_length_def max_sentence_length_def)

lemma complexity_score_explicit:
  "complexity_score c =
     (if 0.2 \<le> c \<and> c \<le> 0.4 then 5
      else if c < 0.2 then 3 + c / 0.2 * 2
      else 5 - (c - 0.4) / 0.3 * 2)"
  by (simp add: complexity_score_def)

lemma length_score_default: "length_score 20 = 4"
  by (simp add: length_score_explicit)

lemma complexity_score_default: "complexity_score 0.3 = 5"
  by (simp add: complexity_score_explicit)

text \<open>
  Claim C10: for the empty readability mapping the readability score is exactly 5.
  A mapping that has other keys but lacks the average sentence length is scored as if
  that were 20, which is worth 4 points, together with the points of its complexity
  ratio; one that lacks the complexity ratio is scored as if that were 0.3, which is
  worth 5 points, together with the points of its sentence length; one that lacks
  both scores 9, not 0.  With both keys present the two kinds of points are added.
\<close>

theorem score_readability_defaults:
  "score_readability no_metrics = 5 \<and>
   (m \<noteq> no_metrics \<and> avg_sentence_length m = None \<longrightarrow>
      score_readability m = score_readability (m\<lparr>avg_sentence_length := Some 20\<rparr>)) \<and>
   (m \<noteq> no_metrics \<and> complexity_ratio m = None \<longrightarrow>
      score_readability m = score_readability (m\<lparr>complexity_ratio := Some 0.3\<rparr>)) \<and>
   (m \<noteq> no_metrics \<and> avg_sentence_length m = None \<and> complexity_ratio m = None \<longrightarrow>
      score_readability m = 9) \<and>
   (avg_sentence_length m = None \<and> complexity_ratio m = Some c \<longrightarrow>
      score_readability m =
        max 0 (min (4 + (if 0.2 \<le> c \<and> c \<le> 0.4 then 5
                         else if c < 0.2 then 3 + c / 0.2 * 2
                         else 5 - (c - 0.4) / 0.3 * 2)) 10)) \<and>
   (avg_sentence_length m = Some l \<and> complexity_ratio m = None \<longrightarrow>
      score_readability m =
        max 0 (min ((if l \<le> 15 then 5
                     else if l \<le> 25 then 5 - (l - 15) / 10 * 2
                     else 3) + 5) 10)) \<and>
   (avg_sentence_length m = Some l \<and> complexity_ratio m = Some c \<longrightarrow>
      score_readability m =
        max 0 (min ((if l \<le> 15 then 5
                     else if l \<le> 25 then 5 - (l - 15) / 10 * 2
                     else 3) +
                    (if 0.2 \<le> c \<and> c \<le> 0.4 then 5
                     else if c < 0.2 then 3 + c / 0.2 * 2
                     else 5 - (c - 0.4) / 0.3 * 2)) 10))"
proof (intro conjI impI)
  show "score_readability no_metrics = 5"
    by (simp add: score_readability_def)
next
  assume a: "m \<noteq> no_metrics \<and> avg_sentence_length m = None"
  have "m\<lparr>avg_sentence_length := Some 20\<rparr> \<noteq> no_metrics"
    by (cases m) (simp add: no_metrics_def)
  with a show "score_readability m = score_readability (m\<lparr>avg_sentence_length := Some 20\<rparr>)"
    by (simp add: readability_nonempty get_or_def)
next
  assume a: "m \<noteq> no_metrics \<and> complexity_ratio m = None"
  have "m\<lparr>complexity_ratio := Some 0.3\<rparr> \<noteq> no_metrics"
    by (cases m) (simp add: no_metrics_def)
  with a show "score_readability m = score_readability (m\<lparr>complexity_ratio := Some 0.3\<rparr>)"
    by (simp add: readability_nonempty get_or_def)
next
  assume "m \<noteq> no_metrics \<and> avg_sentence_length m = None \<and> complexity_ratio m = None"
  then show "score_readability m = 9"
    by (simp add: readability_nonempty get_or_def length_score_def complexity_score_def
        ideal_sentence_length_def max_sentence_length_def)
next
  assume a: "avg_sentence_length m = None \<and> complexity_ratio m = Some c"
  then have "m \<noteq> no_metrics" by (auto simp add: no_metrics_def)
  with a show "score_readability m =
        max 0 (min (4 + (if 0.2 \<le> c \<and> c \<le> 0.4 then 5
                         else if c < 0.2 then 3 + c / 0.2 * 2
                         else 5 - (c - 0.4) / 0.3 * 2)) 10)"
    unfolding readability_nonempty
    by (simp only: get_or_def option.case length_score_default
        complexity_score_explicit [symmetric] if_False)
next
  assume a: "avg_sentence_length m = Some l \<and> complexity_ratio m = None"
  then have "m \<noteq> no_metrics" by (auto simp add: no_metrics_def)
  with a show "score_readability m =
        max 0 (min ((if l \<le> 15 then 5
                     else if l \<le> 25 then 5 - (l - 15) / 10 * 2
                     else 3) + 5) 10)"
    unfolding readability_nonempty
    by (simp only: get_or_def option.case complexity_score_default
        length_score_explicit [symmetric] if_False)
next
  assume a: "avg_sentence_length m = Some l \<and> complexity_ratio m = Some c"
  then have "m \<noteq> no_metrics" by (auto simp add: no_metrics_def)
  with a show "score_readability m =
        max 0 (min ((if l \<le> 15 then 5
                     else if l \<le> 25 then 5 - (l - 15) / 10 * 2
                     else 3) +
                    (if 0.2 \<le> c \<and> c \<le> 0.4 then 5
                     else if c < 0.2 then 3 + c / 0.2 * 2
                     else 5 - (c - 0.4) / 0.3 * 2)) 10)"
    unfolding readability_nonempty
    by (simp only: get_or_def option.case complexity_score_explicit [symmetric]
        length_score_explicit [symmetric] if_False)
qed

theorem score_readability_defaults_witness:
  "only_word_count \<noteq> no_metrics \<and> avg_sentence_length only_word_count = None \<and>
   complexity_ratio only_word_count = None \<and>
   score_readability only_word_count
     = score_readability (only_word_count\<lparr>avg_sentence_length := Some 20\<rparr>) \<and>
   score_readability only_word_count
     = score_readability (only_word_count\<lparr>complexity_ratio := Some 0.3\<rparr>) \<and>
   score_readability only_word_count = 9 \<and>
   avg_sentence_length only_complexity_ratio = None \<and>
   complexity_ratio only_complexity_ratio = Some 0.1 \<and>
   score_readability only_complexity_ratio = 8 \<and>
   avg_sentence_length only_sentence_length = Some 40 \<and>
   complexity_ratio only_sentence_length = None \<and>
   score_readability only_sentence_length = 8 \<and>
   avg_sentence_length long_complex_metrics = Some 20 \<and>
   complexity_ratio long_complex_metrics = Some 0.1 \<and>
   score_readability long_complex_metrics = 8"
proof -
  have h: "only_word_count \<noteq> no_metrics \<and> avg_sentence_length only_word_count = None \<and>
      complexity_ratio only_word_count = None"
    by (simp add: only_word_count_def no_metrics_def)
  have c: "avg_sentence_length only_complexity_ratio = None \<and>
      complexity_ratio only_complexity_ratio = Some 0.1"
    by (simp add: only_complexity_ratio_def no_metrics_def)
  have l: "avg_sentence_length only_sentence_length = Some 40 \<and>
      complexity_ratio only_sentence_length = None"
    by (simp add: only_sentence_length_def no_metrics_def)
  have b: "avg_sentence_length long_complex_metrics = Some 20 \<and>
      complexity_ratio long_complex_metrics = Some 0.1"
    by (simp add: long_complex_metrics_def no_metrics_def)
  show ?thesis
    using h c l b score_readability_defaults [of only_word_count "0.1" 40]
      score_readability_defaults [of only_complexity_ratio "0.1" 40]
      score_readability_defaults [of only_sentence_length "0.1" 40]
      score_readability_defaults [of long_complex_metrics "0.1" 20]
    by simp
qed

subsection \<open>The degenerate bundle\<close>

lemma zero_words_metrics:
  "calculate_readability 0 [] =
     \<lparr>readability_score = Some 0, avg_sentence_length = Some 0, word_count = Some 0,
      sentence_count = None, complexity_ratio = None\<rparr>"
  by (simp add: calculate_readability_def)

lemma zero_words_readability: "score_readability (calculate_readability 0 []) = 10"
  by (simp add: zero_words_metrics readability_nonempty no_metrics_def get_or_def
      length_score_def complexity_score_def ideal_sentence_length_def)

lemma degenerate_score_all:
  assumes "degenerate a"
  shows "score_all a =
     [(''skills_diversity'', 0), (''skills_quantity'', 0), (''contact_completeness'', 0),
      (''sections_completeness'', 0),
      (''readability'', score_readability (get_or (ar_readability a) no_metrics)),
      (''project_quality'', 0), (''content_length'', 0)]"
  using assms unfolding score_all_shape degenerate_def
  by (simp add: score_skills_diversity_def score_skills_quantity_def
      score_contact_completeness_def score_sections_completeness_def
      score_project_quality_def score_content_length_def min_word_count_def)

lemma low_score_is_poor:
  assumes "0 \<le> s" "s \<le> 10"
  shows "fst (rating_of (py_round (s * 0.15) 1)) = ''Poor''"
proof -
  have "py_round (s * 0.15) 1 \<le> of_int 15 / 10"
    by (rule py_round_le) (use assms in simp)
  then show ?thesis by (simp add: rating_of_def)
qed

text \<open>
  Claim C1, as stated, gives the degenerate bundle seven detailed scores of 0 and an
  overall score of 0.  For the bundle that the analysis of a text without words
  produces, the readability score is 10 and the overall score is 1.5.
\<close>

theorem degenerate_bundle_counterexample:
  "degenerate (bundle_of (calculate_readability 0 [])) \<and>
   \<not> (case calculate_overall_score (bundle_of (calculate_readability 0 [])) of
        Inl e \<Rightarrow> False
      | Inr r \<Rightarrow>
          list_all (\<lambda>(k, v). v = 0) (rr_detailed_scores r) \<and>
          rr_overall_score r = 0 \<and> rr_rating_category r = Some ''Poor'')"
proof -
  let ?b = "bundle_of (calculate_readability 0 [])"
  have d: "degenerate ?b"
    by (simp add: degenerate_def bundle_of_def get_or_def zero_words_metrics)
  have s: "score_all ?b =
     [(''skills_diversity'', 0), (''skills_quantity'', 0), (''contact_completeness'', 0),
      (''sections_completeness'', 0), (''readability'', 10),
      (''project_quality'', 0), (''content_length'', 0)]"
    using degenerate_score_all [OF d] zero_words_readability
    by (simp add: bundle_of_def get_or_def)
  have e: "ar_error ?b = None" by (simp add: bundle_of_def)
  have w: "weighted_sum 0 (score_all ?b) = Inr 1.5"
    unfolding s by (simp add: dict_item_def weights_def)
  obtain bd where "calculate_overall_score ?b =
     Inr \<lparr>rr_overall_score = py_round 1.5 1,
          rr_detailed_scores = map (\<lambda>(k, v). (k, py_round v 1)) (score_all ?b),
          rr_error = None,
          rr_rating_category = Some (fst (rating_of (py_round 1.5 1))),
          rr_rating_description = Some (snd (rating_of (py_round 1.5 1))),
          rr_score_breakdown = Some bd,
          rr_improvement_priority = Some (identify_improvement_priorities (score_all ?b))\<rparr>"
    using calculate_overall_score_regular [OF e w] by blast
  then show ?thesis using d by (simp add: py_round_def)
qed

lemma readability_at_least_four:
  assumes "ratio_in_range m"
  shows "4 \<le> score_readability m"
proof -
  have l: "3 \<le> length_score x" for x
    by (simp add: length_score_def ideal_sentence_length_def max_sentence_length_def
        field_simps)
  have c: "0 \<le> c \<Longrightarrow> c \<le> 1 \<Longrightarrow> 1 \<le> complexity_score c" for c
    by (simp add: complexity_score_def field_simps)
  have "1 \<le> complexity_score (get_or (complexity_ratio m) 0.3)"
    using assms c by (cases "complexity_ratio m") (simp_all add: ratio_in_range_def get_or_def)
  with l [of "get_or (avg_sentence_length m) 20"] show ?thesis
    by (simp add: readability_nonempty)
qed

text \<open>
  Claim C1, amended: for a degenerate feature bundle the rating system returns a
  report in which the six detailed scores other than readability are 0, the overall
  score is at most 1.5 and the rating category is Poor.  The readability score is not
  0 when the complexity ratio is missing or lies between 0 and 1, as the data model
  has it: it is then at least 4, and the overall score at least 0.6.  The readability
  score is 5 and the overall score 0.8 when the readability mapping is empty; they
  are 10 and 1.5 when the mapping is the one built for a text without words.
\<close>

theorem degenerate_bundle_scores:
  assumes "degenerate a"
  shows "\<exists>r v. calculate_overall_score a = Inr r \<and>
     rr_detailed_scores r =
       [(''skills_diversity'', 0), (''skills_quantity'', 0), (''contact_completeness'', 0),
        (''sections_completeness'', 0), (''readability'', v),
        (''project_quality'', 0), (''content_length'', 0)] \<and>
     0 \<le> v \<and> v \<le> 10 \<and>
     0 \<le> rr_overall_score r \<and> rr_overall_score r \<le> 1.5 \<and>
     rr_rating_category r = Some ''Poor'' \<and>
     (ratio_in_range (get_or (ar_readability a) no_metrics) \<longrightarrow>
        4 \<le> v \<and> 0.6 \<le> rr_overall_score r) \<and>
     (get_or (ar_readability a) no_metrics = no_metrics \<longrightarrow>
        v = 5 \<and> rr_overall_score r = 0.8) \<and>
     (get_or (ar_readability a) no_metrics = calculate_readability 0 [] \<longrightarrow>
        v = 10 \<and> rr_overall_score r = 1.5)"
proof -
  let ?m = "get_or (ar_readability a) no_metrics"
  let ?s = "score_readability ?m"
  let ?v = "py_round ?s 1"
  let ?o = "py_round (?s * 0.15) 1"
  have e: "ar_error a = None" using assms by (simp add: degenerate_def)
  have w: "weighted_sum 0 (score_all a) = Inr (?s * 0.15)"
    unfolding degenerate_score_all [OF assms] by (simp add: dict_item_def weights_def)
  obtain bd where r: "calculate_overall_score a =
     Inr \<lparr>rr_overall_score = ?o,
          rr_detailed_scores = map (\<lambda>(k, v). (k, py_round v 1)) (score_all a),
          rr_error = None,
          rr_rating_category = Some (fst (rating_of ?o)),
          rr_rating_description = Some (snd (rating_of ?o)),
          rr_score_breakdown = Some bd,
          rr_improvement_priority = Some (identify_improvement_priorities (score_all a))\<rparr>"
    using calculate_overall_score_regular [OF e w] by blast
  have sb: "0 \<le> ?s" "?s \<le> 10" using readability_bounds [of ?m] by simp_all
  have z: "py_round 0 1 = 0" by (simp add: py_round_def)
  have ds: "map (\<lambda>(k, v). (k, py_round v 1)) (score_all a) =
       [(''skills_diversity'', 0), (''skills_quantity'', 0), (''contact_completeness'', 0),
        (''sections_completeness'', 0), (''readability'', ?v),
        (''project_quality'', 0), (''content_length'', 0)]"
    unfolding degenerate_score_all [OF assms] using z by (simp del: One_nat_def)
  have vb: "0 \<le> ?v \<and> ?v \<le> 10" using sb by (rule py_round_unit_interval)
  have ob: "0 \<le> ?o \<and> ?o \<le> 1.5"
    using py_round_ge [of 0 "?s * 0.15"] py_round_le [of "?s * 0.15" 15] sb by simp
  have poor: "fst (rating_of ?o) = ''Poor''"
    using sb by (intro low_score_is_poor)
  have valid: "4 \<le> ?v \<and> 0.6 \<le> ?o" if "ratio_in_range ?m"
  proof -
    have "4 \<le> ?s" using that by (rule readability_at_least_four)
    then show ?thesis
      using py_round_ge [of 40 ?s] py_round_ge [of 6 "?s * 0.15"] by simp
  qed
  have empty: "?v = 5 \<and> ?o = 0.8" if "?m = no_metrics"
  proof -
    have "?s = 5" using that by (simp add: score_readability_def)
    then show ?thesis by (simp add: py_round_def)
  qed
  have zero: "?v = 10 \<and> ?o = 1.5" if "?m = calculate_readability 0 []"
  proof -
    have "?s = 10" using that by (simp add: zero_words_readability)
    then show ?thesis by (simp add: py_round_def)
  qed
  show ?thesis
    unfolding r ds using vb ob poor valid empty zero
    by (intro exI [of _ "\<lparr>rr_overall_score = ?o,
          rr_detailed_scores =
            [(''skills_diversity'', 0), (''skills_quantity'', 0), (''contact_completeness'', 0),
             (''sections_completeness'', 0), (''readability'', ?v),
             (''project_quality'', 0), (''content_length'', 0)],
          rr_error = None,
          rr_rating_category = Some (fst (rating_of ?o)),
          rr_rating_description = Some (snd (rating_of ?o)),
          rr_score_breakdown = Some bd,
          rr_improvement_priority = Some (identify_improvement_priorities (score_all a))\<rparr>"]
        exI [of _ ?v]) simp
qed

theorem degenerate_bundle_scores_witness:
  "degenerate (bundle_of no_metrics) \<and> ratio_in_range no_metrics \<and>
   (\<exists>r. calculate_overall_score (bundle_of no_metrics) = Inr r \<and>
      rr_detailed_scores r =
        [(''skills_diversity'', 0), (''skills_quantity'', 0), (''contact_completeness'', 0),
         (''sections_completeness'', 0), (''readability'', 5),
         (''project_quality'', 0), (''content_length'', 0)] \<and>
      rr_overall_score r = 0.8 \<and> rr_rating_category r = Some ''Poor'') \<and>
   degenerate (bundle_of (calculate_readability 0 [])) \<and>
   ratio_in_range (calculate_readability 0 []) \<and>
   (\<exists>r. calculate_overall_score (bundle_of (calculate_readability 0 [])) = Inr r \<and>
      rr_detailed_scores r =
        [(''skills_diversity'', 0), (''skills_quantity'', 0), (''contact_completeness'', 0),
         (''sections_completeness'', 0), (''readability'', 10),
         (''project_quality'', 0), (''content_length'', 0)] \<and>
      rr_overall_score r = 1.5 \<and> rr_rating_category r = Some ''Poor'')"
proof -
  have h1: "degenerate (bundle_of no_metrics)"
    by (simp add: degenerate_def bundle_of_def get_or_def no_metrics_def)
  have m1: "get_or (ar_readability (bundle_of no_metrics)) no_metrics = no_metrics"
    by (simp add: bundle_of_def get_or_def)
  have q1: "ratio_in_range no_metrics"
    by (simp add: ratio_in_range_def no_metrics_def)
  have h2: "degenerate (bundle_of (calculate_readability 0 []))"
    by (simp add: degenerate_def bundle_of_def get_or_def zero_words_metrics)
  have m2: "get_or (ar_readability (bundle_of (calculate_readability 0 []))) no_metrics
      = calculate_readability 0 []"
    by (simp add: bundle_of_def get_or_def)
  have q2: "ratio_in_range (calculate_readability 0 [])"
    by (simp add: ratio_in_range_def zero_words_metrics)
  have "\<exists>r. calculate_overall_score (bundle_of no_metrics) = Inr r \<and>
      rr_detailed_scores r =
        [(''skills_diversity'', 0), (''skills_quantity'', 0), (''contact_completeness'', 0),
         (''sections_completeness'', 0), (''readability'', 5),
         (''project_quality'', 0), (''content_length'', 0)] \<and>
      rr_overall_score r = 0.8 \<and> rr_rating_category r = Some ''Poor''"
    using degenerate_bundle_scores [OF h1] unfolding m1 by auto
  moreover have "\<exists>r. calculate_overall_score (bundle_of (calculate_readability 0 [])) = Inr r \<and>
      rr_detailed_scores r =
        [(''skills_diversity'', 0), (''skills_quantity'', 0), (''contact_completeness'', 0),
         (''sections_completeness'', 0), (''readability'', 10),
         (''project_quality'', 0), (''content_length'', 0)] \<and>
      rr_overall_score r = 1.5 \<and> rr_rating_category r = Some ''Poor''"
    using degenerate_bundle_scores [OF h2] unfolding m2 by auto
  ultimately show ?thesis using h1 h2 q1 q2 by blast
qed

section \<open>Properties of the suggestions system\<close>

lemma pools_nonempty:
  "dict_in section section_suggestions \<Longrightarrow>
   \<exists>pool. dict_item section_suggestions section = Inr pool \<and> pool \<noteq> []"
  by (auto simp add: dict_in_def dict_item_def section_suggestions_def split: if_splits)

lemma random_choice_ok:
  "pool \<noteq> [] \<Longrightarrow> \<exists>x g'. random_choice g pool = Inr (x, g')"
  by (simp add: random_choice_def)

lemma missing_essential_nonempty:
  "[] \<notin> set suggestions \<Longrightarrow> [] \<notin> set (missing_essential sections_analysis suggestions)"
  by (simp add: missing_essential_def warning_sign_def)

lemma missing_important_ok:
  assumes "[] \<notin> set suggestions" and "list_all (\<lambda>s. dict_in s section_suggestions) todo"
  shows "\<exists>out g'. missing_important sections_analysis suggestions g todo = Inr (out, g') \<and>
           [] \<notin> set out"
  using assms
proof (induction todo arbitrary: suggestions g)
  case Nil
  then show ?case by simp
next
  case (Cons sec rest)
  show ?case
  proof (cases "dict_get sections_analysis sec False")
    case True
    with Cons show ?thesis by simp
  next
    case False
    from Cons.prems obtain pool where p: "dict_item section_suggestions sec = Inr pool"
      and ne: "pool \<noteq> []"
      using pools_nonempty [of sec] by auto
    obtain x g' where c: "random_choice g pool = Inr (x, g')"
      using random_choice_ok [OF ne] by blast
    have "[] \<notin> set (suggestions @
        [heavy_plus_sign @ '' **Add '' @ title sec @ '' Section**: '' @ x])"
      using Cons.prems by (simp add: heavy_plus_sign_def)
    with Cons.IH Cons.prems False p c show ?thesis by simp
  qed
qed

lemma improve_existing_ok:
  assumes "[] \<notin> set suggestions"
  shows "\<exists>out g'. improve_existing suggestions g items = Inr (out, g') \<and> [] \<notin> set out"
  using assms
proof (induction items arbitrary: suggestions g)
  case Nil
  then show ?case by simp
next
  case (Cons item rest)
  obtain sec present where i: "item = (sec, present)" by (cases item)
  show ?case
  proof (cases "present \<and> dict_in sec section_suggestions")
    case False
    with Cons i show ?thesis by auto
  next
    case True
    then obtain pool where p: "dict_item section_suggestions sec = Inr pool"
      and ne: "pool \<noteq> []"
      using pools_nonempty [of sec] by auto
    obtain x g' where c: "random_choice g pool = Inr (x, g')"
      using random_choice_ok [OF ne] by blast
    have "[] \<notin> set (suggestions @
        [pencil @ '' **Improve '' @ title sec @ '' Section**: '' @ x])"
      using Cons.prems by (simp add: pencil_def)
    with Cons.IH True i p c show ?thesis by simp
  qed
qed

lemma section_suggestions_ok:
  "\<exists>out g'. generate_section_suggestions sections_analysis detailed_scores g = Inr (out, g') \<and>
     [] \<notin> set out"
proof -
  have "[] \<notin> set (missing_essential sections_analysis [])"
    by (rule missing_essential_nonempty) simp
  moreover have "list_all (\<lambda>s. dict_in s section_suggestions) [''summary'', ''projects'']"
    by (simp add: dict_in_def section_suggestions_def)
  ultimately obtain s1 g1 where
    m: "missing_important sections_analysis (missing_essential sections_analysis []) g
          [''summary'', ''projects''] = Inr (s1, g1)" and n: "[] \<notin> set s1"
    using missing_important_ok by blast
  obtain s2 g2 where "improve_existing s1 g1 sections_analysis = Inr (s2, g2)" "[] \<notin> set s2"
    using improve_existing_ok [OF n] by blast
  with m n show ?thesis
    by (simp add: generate_section_suggestions_def Let_def)
qed

lemma content_suggestions_nonempty:
  "[] \<notin> set (generate_content_suggestions analysis detailed_scores)"
proof -
  have 1: "\<And>xs. [] \<notin> set xs \<Longrightarrow> [] \<notin> set (content_length_suggestions analysis detailed_scores xs)"
    by (simp add: content_length_suggestions_def Let_def memo_def scissors_def)
  have 2: "\<And>xs. [] \<notin> set xs \<Longrightarrow> [] \<notin> set (readability_suggestions analysis detailed_scores xs)"
    by (simp add: readability_suggestions_def Let_def dart_def thought_balloon_def)
  have 3: "\<And>xs. [] \<notin> set xs \<Longrightarrow> [] \<notin> set (project_suggestions analysis detailed_scores xs)"
    by (simp add: project_suggestions_def Let_def rocket_def clipboard_def)
  have 4: "\<And>xs. [] \<notin> set xs \<Longrightarrow> [] \<notin> set (contact_suggestions analysis detailed_scores xs)"
    by (simp add: contact_suggestions_def Let_def telephone_receiver_def)
  show ?thesis
    unfolding generate_content_suggestions_def Let_def
    by (intro 1 2 3 4) simp
qed

lemma slice_empty_iff: "slice 2 4 xs = [] \<longleftrightarrow> length xs \<le> 2"
  by (simp add: slice_def)

lemma slice_subset: "set (slice i j xs) \<subseteq> set xs"
  unfolding slice_def by (meson set_take_subset set_drop_subset subset_trans)

lemmas score_defs =
  score_all_def get_or_def Let_def
  score_skills_diversity_def score_skills_quantity_def total_skills_def
  score_contact_completeness_def score_sections_completeness_def score_readability_def
  score_project_quality_def score_content_length_def thresholds no_metrics_def
  dict_in_def dict_get_def length_score_def complexity_score_def quantity_score_def
  quality_step_def split_def is_space_def whitespace_def

lemma ideal_scores:
  "score_all ideal_bundle =
     [(''skills_diversity'', 10), (''skills_quantity'', 10), (''contact_completeness'', 10),
      (''sections_completeness'', 10), (''readability'', 10), (''project_quality'', 10),
      (''content_length'', 9.625)]"
  by (simp add: ideal_bundle_def score_defs)

lemma ideal_weighted: "weighted_sum 0 (score_all ideal_bundle) = Inr 9.9625"
  unfolding ideal_scores by (simp add: dict_item_def weights_def)

lemma ideal_content: 
  "generate_content_suggestions ideal_bundle (map (\<lambda>(k, v). (k, py_round v 1)) (score_all ideal_bundle)) = []"
  unfolding ideal_scores
  by (simp add: generate_content_suggestions_def content_length_suggestions_def
     readability_suggestions_def project_suggestions_def contact_suggestions_def
     dict_get_def py_round_def Let_def)

lemma ideal_sections: 
  "generate_section_suggestions (get_or (ar_sections ideal_bundle) []) (map (\<lambda>(k, v). (k, py_round v 1)) (score_all ideal_bundle)) g = Inr ([], g)"
  unfolding ideal_scores
  by (simp add: generate_section_suggestions_def missing_essential_def ideal_bundle_def get_or_def
     dict_get_def py_round_def Let_def)

text \<open>
  Claim C4, as stated, makes the tier of important suggestions non-empty for every
  bundle and report.  For the ideal resume of the spec, rated Excellent, both
  suggestion lists are empty and so is the tier.
\<close>

theorem important_tier_empty_counterexample:
  "(case calculate_overall_score ideal_bundle of
      Inl e \<Rightarrow> False
    | Inr r \<Rightarrow>
        rr_overall_score r = 10 \<and> rr_rating_category r = Some ''Excellent'' \<and>
        important_suggestions ideal_bundle r (\<lambda>n. 0) = Inr [])"
proof -
  have e: "ar_error ideal_bundle = None" by (simp add: ideal_bundle_def)
  obtain bd where "calculate_overall_score ideal_bundle =
     Inr \<lparr>rr_overall_score = py_round 9.9625 1,
          rr_detailed_scores = map (\<lambda>(k, v). (k, py_round v 1)) (score_all ideal_bundle),
          rr_error = None,
          rr_rating_category = Some (fst (rating_of (py_round 9.9625 1))),
          rr_rating_description = Some (snd (rating_of (py_round 9.9625 1))),
          rr_score_breakdown = Some bd,
          rr_improvement_priority =
            Some (identify_improvement_priorities (score_all ideal_bundle))\<rparr>"
    using calculate_overall_score_regular [OF e ideal_weighted] by blast
  moreover have "py_round 9.9625 1 = 10" by (simp add: py_round_def)
  ultimately show ?thesis
    by (simp add: important_suggestions_def ideal_content ideal_sections rating_of_def
        slice_def del: One_nat_def)
qed

lemma content_suggestions_none:
  assumes "7 \<le> dict_get ds ''content_length'' 0" "7 \<le> dict_get ds ''readability'' 0"
    "7 \<le> dict_get ds ''project_quality'' 0" "8 \<le> dict_get ds ''contact_completeness'' 0"
  shows "generate_content_suggestions analysis ds = []"
  using assms
  by (simp add: generate_content_suggestions_def content_length_suggestions_def
      readability_suggestions_def project_suggestions_def contact_suggestions_def Let_def)

lemma section_suggestions_none:
  assumes "8 \<le> dict_get ds ''sections_completeness'' 0"
    and "list_all (\<lambda>s. dict_get sa s False)
           [''experience'', ''education'', ''skills'', ''summary'', ''projects'']"
  shows "generate_section_suggestions sa ds g = Inr ([], g)"
  using assms
  by (simp add: generate_section_suggestions_def missing_essential_def Let_def)

text \<open>
  Claim C4, amended: for every feature bundle, every score report and every state of
  the random generator, the tier of important suggestions is computed without an
  error and holds exactly the entries of the slices \<open>[2:4]\<close> of the content
  suggestions and of the section suggestions, each once.  It is empty exactly when
  both lists have at most two entries.  In particular it is empty when the report
  scores content length, readability and project quality at 7 or more and contact
  completeness and sections completeness at 8 or more, and the bundle has the
  sections experience, education, skills, summary and projects.
\<close>

theorem important_tier_contents:
  "\<exists>section g' important.
     generate_section_suggestions (get_or (ar_sections analysis) [])
       (rr_detailed_scores rating) g = Inr (section, g') \<and>
     important_suggestions analysis rating g = Inr important \<and>
     set important =
       set (slice 2 4 (generate_content_suggestions analysis (rr_detailed_scores rating)))
       \<union> set (slice 2 4 section) \<and>
     distinct important \<and>
     (important = [] \<longleftrightarrow>
        length (generate_content_suggestions analysis (rr_detailed_scores rating)) \<le> 2 \<and>
        length section \<le> 2) \<and>
     (7 \<le> dict_get (rr_detailed_scores rating) ''content_length'' 0 \<and>
      7 \<le> dict_get (rr_detailed_scores rating) ''readability'' 0 \<and>
      7 \<le> dict_get (rr_detailed_scores rating) ''project_quality'' 0 \<and>
      8 \<le> dict_get (rr_detailed_scores rating) ''contact_completeness'' 0 \<and>
      8 \<le> dict_get (rr_detailed_scores rating) ''sections_completeness'' 0 \<and>
      list_all (\<lambda>s. dict_get (get_or (ar_sections analysis) []) s False)
        [''experience'', ''education'', ''skills'', ''summary'', ''projects'']
      \<longrightarrow> important = [])"
proof -
  let ?ds = "rr_detailed_scores rating"
  let ?sa = "get_or (ar_sections analysis) []"
  let ?cs = "generate_content_suggestions analysis ?ds"
  obtain ss g' where s: "generate_section_suggestions ?sa ?ds g = Inr (ss, g')"
    and ne: "[] \<notin> set ss"
    using section_suggestions_ok by blast
  have "[] \<notin> set (slice 2 4 ?cs @ slice 2 4 ss)"
    using content_suggestions_nonempty [of analysis ?ds] ne
      slice_subset [of 2 4 ?cs] slice_subset [of 2 4 ss] by auto
  then have f: "filter (\<lambda>s. s \<noteq> []) (slice 2 4 ?cs @ slice 2 4 ss) = slice 2 4 ?cs @ slice 2 4 ss"
    by (intro filter_True) auto
  have i: "important_suggestions analysis rating g = Inr (remdups (slice 2 4 ?cs @ slice 2 4 ss))"
    using s f by (simp add: important_suggestions_def Let_def)
  have e: "remdups (slice 2 4 ?cs @ slice 2 4 ss) = [] \<longleftrightarrow> length ?cs \<le> 2 \<and> length ss \<le> 2"
    by (simp add: slice_empty_iff)
  have h: "remdups (slice 2 4 ?cs @ slice 2 4 ss) = []"
    if "7 \<le> dict_get ?ds ''content_length'' 0 \<and>
      7 \<le> dict_get ?ds ''readability'' 0 \<and>
      7 \<le> dict_get ?ds ''project_quality'' 0 \<and>
      8 \<le> dict_get ?ds ''contact_completeness'' 0 \<and>
      8 \<le> dict_get ?ds ''sections_completeness'' 0 \<and>
      list_all (\<lambda>s. dict_get ?sa s False)
        [''experience'', ''education'', ''skills'', ''summary'', ''projects'']"
  proof -
    have "?cs = []" using that by (intro content_suggestions_none) simp_all
    moreover have "generate_section_suggestions ?sa ?ds g = Inr ([], g)"
      using that by (intro section_suggestions_none) simp_all
    then have "ss = []" using s by simp
    ultimately show ?thesis by (simp add: slice_def)
  qed
  show ?thesis
    using s i e h by (intro exI [of _ ss] exI [of _ g']
        exI [of _ "remdups (slice 2 4 ?cs @ slice 2 4 ss)"]) simp
qed

lemma bare_scores:
  "score_all (bundle_of no_metrics) =
     [(''skills_diversity'', 0), (''skills_quantity'', 0), (''contact_completeness'', 0),
      (''sections_completeness'', 0), (''readability'', 5), (''project_quality'', 0),
      (''content_length'', 0)]"
  by (simp add: bundle_of_def score_defs)

lemma bare_content:
  "length (generate_content_suggestions (bundle_of no_metrics)
     (map (\<lambda>(k, v). (k, py_round v 1)) (score_all (bundle_of no_metrics)))) = 3"
  unfolding bare_scores
  by (simp add: generate_content_suggestions_def content_length_suggestions_def
     readability_suggestions_def project_suggestions_def contact_suggestions_def
     dict_get_def dict_in_def get_or_def py_round_def Let_def bundle_of_def no_metrics_def)

theorem important_tier_contents_witness:
  "(case calculate_overall_score (bundle_of no_metrics) of
      Inl e \<Rightarrow> False
    | Inr r \<Rightarrow>
        length (generate_content_suggestions (bundle_of no_metrics) (rr_detailed_scores r)) = 3 \<and>
        (\<exists>important. important_suggestions (bundle_of no_metrics) r (\<lambda>n. 0) = Inr important \<and>
           important \<noteq> [])) \<and>
   (case calculate_overall_score ideal_bundle of
      Inl e \<Rightarrow> False
    | Inr r \<Rightarrow>
        7 \<le> dict_get (rr_detailed_scores r) ''content_length'' 0 \<and>
        7 \<le> dict_get (rr_detailed_scores r) ''readability'' 0 \<and>
        7 \<le> dict_get (rr_detailed_scores r) ''project_quality'' 0 \<and>
        8 \<le> dict_get (rr_detailed_scores r) ''contact_completeness'' 0 \<and>
        8 \<le> dict_get (rr_detailed_scores r) ''sections_completeness'' 0 \<and>
        list_all (\<lambda>s. dict_get (get_or (ar_sections ideal_bundle) []) s False)
          [''experience'', ''education'', ''skills'', ''summary'', ''projects''] \<and>
        important_suggestions ideal_bundle r (\<lambda>n. 1) = Inr [])"
proof -
  have e: "ar_error (bundle_of no_metrics) = None" by (simp add: bundle_of_def)
  have w: "weighted_sum 0 (score_all (bundle_of no_metrics)) = Inr 0.75"
    unfolding bare_scores by (simp add: dict_item_def weights_def)
  obtain r where r: "calculate_overall_score (bundle_of no_metrics) = Inr r"
    and ds: "rr_detailed_scores r =
      map (\<lambda>(k, v). (k, py_round v 1)) (score_all (bundle_of no_metrics))"
    using calculate_overall_score_regular [OF e w] by force
  have len: "length (generate_content_suggestions (bundle_of no_metrics) (rr_detailed_scores r)) = 3"
    unfolding ds by (rule bare_content)
  obtain ss important where
    "important_suggestions (bundle_of no_metrics) r (\<lambda>n. 0) = Inr important"
    and "important = [] \<longleftrightarrow>
        length (generate_content_suggestions (bundle_of no_metrics) (rr_detailed_scores r)) \<le> 2 \<and>
        length (ss :: string list) \<le> 2"
    using important_tier_contents [of "bundle_of no_metrics" r "\<lambda>n. 0"] by blast
  with len r have first: "(case calculate_overall_score (bundle_of no_metrics) of
      Inl e \<Rightarrow> False
    | Inr r \<Rightarrow>
        length (generate_content_suggestions (bundle_of no_metrics) (rr_detailed_scores r)) = 3 \<and>
        (\<exists>important. important_suggestions (bundle_of no_metrics) r (\<lambda>n. 0) = Inr important \<and>
           important \<noteq> []))"
    by simp
  have e': "ar_error ideal_bundle = None" by (simp add: ideal_bundle_def)
  obtain r' where r': "calculate_overall_score ideal_bundle = Inr r'"
    and ds': "rr_detailed_scores r' =
      map (\<lambda>(k, v). (k, py_round v 1)) (score_all ideal_bundle)"
    using calculate_overall_score_regular [OF e' ideal_weighted] by force
  have hyp: "7 \<le> dict_get (rr_detailed_scores r') ''content_length'' 0 \<and>
        7 \<le> dict_get (rr_detailed_scores r') ''readability'' 0 \<and>
        7 \<le> dict_get (rr_detailed_scores r') ''project_quality'' 0 \<and>
        8 \<le> dict_get (rr_detailed_scores r') ''contact_completeness'' 0 \<and>
        8 \<le> dict_get (rr_detailed_scores r') ''sections_completeness'' 0 \<and>
        list_all (\<lambda>s. dict_get (get_or (ar_sections ideal_bundle) []) s False)
          [''experience'', ''education'', ''skills'', ''summary'', ''projects'']"
    unfolding ds' ideal_scores
    by (simp add: dict_get_def py_round_def ideal_bundle_def get_or_def)
  have "important_suggestions ideal_bundle r' (\<lambda>n. 1) = Inr []"
    using important_tier_contents [of ideal_bundle r' "\<lambda>n. 1"] hyp by auto
  with hyp r' first show ?thesis by simp
qed

section \<open>Properties of the text analyzer\<close>

lemmas regex_defs =
  findall_def match_here_def phone_pattern_def email_pattern_def linkedin_pattern_def
  github_pattern_def word_at_def word_chars_def digits_def whitespace_def
  ascii_lowercase_def ascii_uppercase_def get_or_def Let_def

subsection \<open>Contact information\<close>

text \<open>
  Claim C3 has every present contact field hold the first match of its pattern and
  never the empty string; in particular the phone field is the first phone number of
  the text.  The code stores what the only group of the phone pattern captured, the
  optional country code: the empty string for a number without one, and the prefix
  alone for a number with one.
\<close>

theorem phone_field_is_country_code:
  "analyze_contact_info ''555-123-4567'' = [(''phone'', [])] \<and>
   analyze_contact_info ''Call +1 555-123-4567 or mail jane@example.com''
     = [(''email'', ''jane@example.com''), (''phone'', ''+1 '')]"
  by (simp add: analyze_contact_info_def regex_defs lower_def to_lower_def dict_get_def)

subsection \<open>Job comparison\<close>

text \<open>
  Claim C9, as stated, gives the error object empty lists of required, matched and
  missing keywords.  The error object has a list of missing keywords only.
\<close>

theorem unknown_job_title_counterexample:
  "(case compare_with_job sample_job_keywords sample_bundle ''Nonexistent Title'' of
      Inl e \<Rightarrow> False
    | Inr r \<Rightarrow>
        jc_required_keywords r = None \<and> jc_matched_keywords r = None \<and>
        jc_required_keywords r \<noteq> Some [] \<and> jc_matched_keywords r \<noteq> Some [])"
  by (simp add: compare_with_job_def sample_job_keywords_def dict_in_def lower_def
      to_lower_def dict_get_def ascii_lowercase_def ascii_uppercase_def)

text \<open>
  Claim C9, amended: for every feature bundle and every job title that, lowercased,
  is not a key of the job keyword dict, the comparison raises nothing and returns an
  error object that names the title, has a match score of 0 and an empty list of
  missing keywords; it has no required keywords, matched keywords or recommendations.
\<close>

theorem unknown_job_title:
  assumes "\<not> dict_in (lower job_title) job_keywords"
  shows "compare_with_job job_keywords resume_analysis job_title =
     Inr \<lparr>jc_error = Some (''Job title '' @ [CHR 0x22] @ job_title @ [CHR 0x22] @
                           '' not found in database''),
          jc_required_keywords = None, jc_matched_keywords = None,
          jc_missing_keywords = [], jc_match_score = 0, jc_recommendations = None\<rparr>"
  using assms by (simp add: compare_with_job_def)

theorem unknown_job_title_witness:
  "\<not> dict_in (lower ''Nonexistent Title'') sample_job_keywords \<and>
   compare_with_job sample_job_keywords sample_bundle ''Nonexistent Title'' =
     Inr \<lparr>jc_error = Some (''Job title '' @ [CHR 0x22] @ ''Nonexistent Title'' @ [CHR 0x22] @
                           '' not found in database''),
          jc_required_keywords = None, jc_matched_keywords = None,
          jc_missing_keywords = [], jc_match_score = 0, jc_recommendations = None\<rparr>"
proof -
  have h: "\<not> dict_in (lower ''Nonexistent Title'') sample_job_keywords"
    by (simp add: sample_job_keywords_def dict_in_def lower_def to_lower_def dict_get_def
        ascii_lowercase_def ascii_uppercase_def)
  show ?thesis using h unknown_job_title [OF h] by simp
qed

lemma known_job_title_example:
  "compare_with_job sample_job_keywords (sample_bundle\<lparr>ar_keywords := Some [''python'', ''html'']\<rparr>) ''Data Scientist'' = 
   Inr \<lparr>jc_error = None, jc_required_keywords = Some [''python'', ''statistics'', ''machine learning''],
        jc_matched_keywords = Some [''python''], jc_missing_keywords = [''statistics'', ''machine learning''],
        jc_match_score = 33.33, jc_recommendations = Some [''Add '' @ [CHR 0x27] @ ''statistics'' @ [CHR 0x27] @ '' to relevant sections'', ''Add '' @ [CHR 0x27] @ ''machine learning'' @ [CHR 0x27] @ '' to relevant sections'']\<rparr>"
  by (simp add: compare_with_job_def sample_job_keywords_def dict_in_def dict_item_def lower_def
      to_lower_def dict_get_def ascii_lowercase_def ascii_uppercase_def sample_bundle_def get_or_def py_round_def)

end
